theory Spec2Isabelle
  imports Main "HOL-Library.Word" "HOL-Library.AList"
begin

unbundle bit_operations_syntax

section \<open>JavaScript integer operators\<close>

text \<open>
  The relay is JavaScript. Its numbers are modelled as \<open>int\<close>; every bitwise operator
  first converts its operands to signed 32-bit integers (\<open>ToInt32\<close>; \<open>>>>\<close> to unsigned
  ones), and a shift uses its count modulo 32. \<open>int\<close> has no negative zero: where the source produces \<open>-0\<close> the model
  has \<open>0\<close>, and the source treats both alike (\<open>-0 < 0\<close> is false, \<open>Math.abs(-0)\<close> is
  \<open>0\<close>, \<open>writeInt16LE(-0)\<close> stores zero).
\<close>

definition ToInt32 :: "int \<Rightarrow> int" where
  "ToInt32 x = signed_take_bit 31 x"

definition js_and :: "int \<Rightarrow> int \<Rightarrow> int" where
  "js_and a b = ToInt32 a AND ToInt32 b"

definition js_or :: "int \<Rightarrow> int \<Rightarrow> int" where
  "js_or a b = ToInt32 a OR ToInt32 b"

definition js_not :: "int \<Rightarrow> int" where
  "js_not a = NOT (ToInt32 a)"

definition js_shl :: "int \<Rightarrow> int \<Rightarrow> int" where
  "js_shl a n = ToInt32 (push_bit (nat (take_bit 5 n)) (ToInt32 a))"

definition js_sar :: "int \<Rightarrow> int \<Rightarrow> int" where
  "js_sar a n = drop_bit (nat (take_bit 5 n)) (ToInt32 a)"

definition js_shr :: "int \<Rightarrow> int \<Rightarrow> int" where
  "js_shr a n = drop_bit (nat (take_bit 5 n)) (take_bit 32 a)"

section \<open>Codec: \<open>mulawToLinear\<close> and \<open>linearToMulaw\<close>\<close>

definition bias :: int where
  "bias = 0x84"

definition mulawToLinear :: "int \<Rightarrow> int" where
  "mulawToLinear mulaw =
     (let sign = js_and mulaw 0x80;
          exponent = js_and (js_sar mulaw 4) 0x07;
          mantissa = js_and mulaw 0x0F;
          sample = js_shl mantissa (exponent + 3);
          sample = (if exponent \<noteq> 0 then sample + js_shl bias exponent else sample)
      in if sign \<noteq> 0 then - sample else sample)"

text \<open>
  The search loop of \<open>linearToMulaw\<close>: \<open>exp\<close> runs from its start value up to 7 and the
  first \<open>exp\<close> with \<open>sample <= (0x1F << (exp + 3))\<close> is taken; when the loop runs out the
  initial value 7 of \<open>exponent\<close> stays.
\<close>

function exponent_loop :: "int \<Rightarrow> int \<Rightarrow> int" where
  "exponent_loop sample exp =
     (if exp < 8
      then (if sample \<le> js_shl 0x1F (exp + 3) then exp else exponent_loop sample (exp + 1))
      else 7)"
  by pat_completeness auto
termination
  by (relation "measure (\<lambda>(sample, exp). nat (8 - exp))") auto

declare exponent_loop.simps [simp del]

definition linearToMulaw :: "int \<Rightarrow> int" where
  "linearToMulaw linear =
     (let sample = \<bar>linear\<bar>;
          sign = (if linear < 0 then 0x80 else 0);
          sample = sample + bias;
          exponent = exponent_loop sample 0;
          mantissa = js_and (js_sar sample (exponent + 3)) 0x0F
      in js_not (js_or (js_or sign (js_shl exponent 4)) mantissa))"

section \<open>Buffers\<close>

text \<open>
  A Node \<open>Buffer\<close> is a sequence of bytes. Storing a number into a byte slot keeps its
  low eight bits; \<open>readInt16LE\<close> and \<open>writeInt16LE\<close> throw a range error when the offset
  leaves the buffer, and \<open>writeInt16LE\<close> also when the value is not a signed 16-bit
  integer (it checks the value first).
\<close>

type_synonym byte = "8 word"
type_synonym buffer = "byte list"

datatype error = RangeError | TypeError | ServiceError

definition ToUint8 :: "int \<Rightarrow> byte" where
  "ToUint8 v = word_of_int v"

definition readInt16LE :: "buffer \<Rightarrow> nat \<Rightarrow> error + int" where
  "readInt16LE buf offset =
     (if offset + 2 \<le> length buf
      then (let v = uint (buf ! offset) + 256 * uint (buf ! (offset + 1))
            in Inr (if 32768 \<le> v then v - 65536 else v))
      else Inl RangeError)"

definition writeInt16LE :: "buffer \<Rightarrow> int \<Rightarrow> nat \<Rightarrow> error + buffer" where
  "writeInt16LE buf v offset =
     (if v < - 32768 \<or> 32767 < v then Inl RangeError
      else if length buf < offset + 2 then Inl RangeError
      else Inr (buf[offset := ToUint8 v, offset + 1 := ToUint8 (js_shr v 8)]))"

function convertMulawToWav_loop :: "buffer \<Rightarrow> buffer \<Rightarrow> nat \<Rightarrow> error + buffer" where
  "convertMulawToWav_loop mulawData wavBuffer i =
     (if i < length mulawData
      then (let sample = uint (mulawData ! i);
                linear = mulawToLinear sample
            in case writeInt16LE wavBuffer linear (i * 2) of
                 Inl e \<Rightarrow> Inl e
               | Inr wavBuffer' \<Rightarrow> convertMulawToWav_loop mulawData wavBuffer' (i + 1))
      else Inr wavBuffer)"
  by pat_completeness auto
termination
  by (relation "measure (\<lambda>(mulawData, wavBuffer, i). length mulawData - i)") auto

declare convertMulawToWav_loop.simps [simp del]

definition convertMulawToWav :: "buffer \<Rightarrow> error + buffer" where
  "convertMulawToWav mulawData =
     convertMulawToWav_loop mulawData (replicate (length mulawData * 2) 0) 0"

function convertWavToMulaw_loop :: "buffer \<Rightarrow> buffer \<Rightarrow> nat \<Rightarrow> error + buffer" where
  "convertWavToMulaw_loop wavData mulawBuffer i =
     (if i < length mulawBuffer
      then (case readInt16LE wavData (i * 2) of
              Inl e \<Rightarrow> Inl e
            | Inr linear \<Rightarrow>
                convertWavToMulaw_loop wavData
                  (mulawBuffer[i := ToUint8 (linearToMulaw linear)]) (i + 1))
      else Inr mulawBuffer)"
  by pat_completeness auto
termination
  by (relation "measure (\<lambda>(wavData, mulawBuffer, i). length mulawBuffer - i)") auto

declare convertWavToMulaw_loop.simps [simp del]

text \<open>\<open>Buffer.alloc(wavData.length / 2)\<close> truncates a fractional size.\<close>

definition convertWavToMulaw :: "buffer \<Rightarrow> error + buffer" where
  "convertWavToMulaw wavData =
     convertWavToMulaw_loop wavData (replicate (length wavData div 2) 0) 0"

section \<open>Strings\<close>

text \<open>
  Strings are sequences of code units, here restricted to the units below 256 that
  \<open>char\<close> offers. \<open>trim\<close> removes the white space of that range from both ends:
  tab, line feed, vertical tab, form feed, carriage return, space and no-break space.
  A value that may be \<open>undefined\<close> or \<open>null\<close> is an \<open>option\<close>; it is truthy when
  it is present and not the empty string, and a template literal renders \<open>null\<close> as
  the text \<open>null\<close>.
\<close>

definition is_ws :: "char \<Rightarrow> bool" where
  "is_ws c \<longleftrightarrow> (of_char c :: nat) \<in> set [9, 10, 11, 12, 13, 32, 160]"

definition trim :: "string \<Rightarrow> string" where
  "trim s = rev (dropWhile is_ws (rev (dropWhile is_ws s)))"

definition truthy :: "string option \<Rightarrow> bool" where
  "truthy v = (case v of None \<Rightarrow> False | Some s \<Rightarrow> s \<noteq> [])"

definition startsWith :: "string \<Rightarrow> string \<Rightarrow> bool" where
  "startsWith s p \<longleftrightarrow> take (length p) s = p"

definition interpolate :: "string option \<Rightarrow> string" where
  "interpolate v = (case v of None \<Rightarrow> ''null'' | Some s \<Rightarrow> s)"

section \<open>Sessions, streams and the two registries\<close>

text \<open>
  \<open>activeSessions\<close> and \<open>activeStreams\<close> are JavaScript \<open>Map\<close>s: association lists
  in insertion order, where \<open>set\<close> on a present key keeps its position
  (\<open>AList.update\<close>), \<open>get\<close> is \<open>map_of\<close> and \<open>delete\<close> is \<open>AList.delete\<close>.
  Times are milliseconds since the epoch. \<open>setTimeout\<close> is a list of pending timers,
  each with the time it is due and the session id its callback deletes; \<open>elapse\<close>
  runs the callbacks that are due.
\<close>

record languages =
  phone :: string
  web :: string

record participant_info =
  p_callSid :: "string option"
  p_from :: "string option"
  p_to :: "string option"
  joinedAt :: int
  leftAt :: "int option"

record session =
  sessionId :: string
  conferenceId :: string
  phoneNumber :: string
  languages :: languages
  status :: string
  createdAt :: int
  participants :: "(string \<times> participant_info) list"
  audioBuffers :: "(string \<times> buffer) list"
  callSid :: "string option"
  lastCallStatus :: "string option"
  lastStatusUpdate :: "int option"

record stream =
  ws :: nat
  stream_participant :: "string option"
  stream_sessionId :: string

record system =
  activeSessions :: "(string \<times> session) list"
  activeStreams :: "(string \<times> stream) list"
  timers :: "(int \<times> string) list"

definition AUDIO_CONFIG_chunkSize :: nat where
  "AUDIO_CONFIG_chunkSize = 1600"

definition SUPPORTED_LANGUAGES :: "(string \<times> string) list" where
  "SUPPORTED_LANGUAGES =
     [(''en'', ''en-US''), (''es'', ''es-ES''), (''fr'', ''fr-FR''), (''de'', ''de-DE''),
      (''zh'', ''zh-CN''), (''ja'', ''ja-JP''), (''ko'', ''ko-KR''), (''ar'', ''ar-SA''),
      (''hi'', ''hi-IN''), (''pt'', ''pt-BR''), (''ru'', ''ru-RU''), (''it'', ''it-IT''),
      (''vi'', ''vi-VN''), (''th'', ''th-TH'')]"

text \<open>
  \<open>SUPPORTED_LANGUAGES[code]\<close> is truthy for the fourteen codes of the table and also for
  the names of the properties that the object inherits.
\<close>

definition inherited_properties :: "string list" where
  "inherited_properties =
     [''constructor'', ''hasOwnProperty'', ''isPrototypeOf'', ''propertyIsEnumerable'',
      ''toLocaleString'', ''toString'', ''valueOf'', ''__proto__'', ''__defineGetter__'',
      ''__defineSetter__'', ''__lookupGetter__'', ''__lookupSetter__'']"

definition supported :: "string \<Rightarrow> bool" where
  "supported code \<longleftrightarrow>
     map_of SUPPORTED_LANGUAGES code \<noteq> None \<or> code \<in> set inherited_properties"

definition elapse :: "int \<Rightarrow> system \<Rightarrow> system" where
  "elapse now sys =
     sys\<lparr>activeSessions :=
           fold (\<lambda>(due, sid) m. if due \<le> now then AList.delete sid m else m)
             (timers sys) (activeSessions sys),
         timers := filter (\<lambda>(due, sid). now < due) (timers sys)\<rparr>"

section \<open>Requests and call-control markup\<close>

record request =
  q_session :: "string option"
  q_type :: "string option"
  q_participant :: "string option"
  b_From :: "string option"
  b_To :: "string option"
  b_CallSid :: "string option"
  b_CallStatus :: "string option"
  b_StatusCallbackEvent :: "string option"
  host :: string

record conference_options =
  startConferenceOnEnter :: bool
  endConferenceOnExit :: bool
  waitUrl :: string
  maxParticipants :: "nat option"
  recordConference :: "bool option"
  statusCallback :: string
  statusCallbackEvent :: "string list"
  statusCallbackMethod :: string

datatype verb =
    Say string
  | Hangup
  | ConnectStream string string
  | DialConference string conference_options

section \<open>The translation pipeline\<close>

text \<open>
  The speech services and the sockets are outside the program. \<open>whisper\<close>, \<open>chat\<close>
  and \<open>tts\<close> stand for the three remote calls together with the statements that share
  their \<open>try\<close> block: \<open>None\<close> means that something in the block threw.
  \<open>readyState\<close> gives the state of each socket. What a function does to the outside is
  the list of its effects, in order: \<open>Pipeline\<close>, \<open>Transcribe\<close>, \<open>Translate\<close>,
  \<open>Synthesize\<close> and \<open>Route\<close> are the calls of \<open>translateAndForwardAudio\<close>,
  \<open>transcribeAudio\<close>, \<open>translateText\<close>, \<open>synthesizeSpeech\<close> and
  \<open>sendAudioToParticipant\<close> with their arguments, \<open>WsSend\<close> is a message sent on a
  socket and \<open>WsClose\<close> the closing of one. An exception that a \<open>catch\<close> absorbs ends
  the effects of its \<open>try\<close> block. A media payload stands for the bytes its base64 text
  encodes.
\<close>

record environment =
  whisper :: "buffer \<Rightarrow> string \<Rightarrow> string option"
  chat :: "string \<Rightarrow> string \<Rightarrow> string \<Rightarrow> string option"
  tts :: "string \<Rightarrow> buffer option"
  readyState :: "nat \<Rightarrow> nat"

record media_message =
  event :: string
  streamSid :: string
  payload :: buffer

datatype effect =
    Pipeline buffer "string option"
  | Transcribe buffer string
  | Translate string string string
  | Synthesize string string
  | Route buffer string
  | WsSend nat media_message
  | WsClose nat

definition transcribeAudio :: "environment \<Rightarrow> buffer \<Rightarrow> string \<Rightarrow> string option" where
  "transcribeAudio env audioBuffer language =
     (case whisper env audioBuffer language of
        Some transcription \<Rightarrow> Some transcription
      | None \<Rightarrow> None)"

definition translateText :: "environment \<Rightarrow> string \<Rightarrow> string \<Rightarrow> string \<Rightarrow> string" where
  "translateText env text fromLang toLang =
     (case chat env text fromLang toLang of
        Some content \<Rightarrow> trim content
      | None \<Rightarrow> text)"

definition synthesizeSpeech :: "environment \<Rightarrow> string \<Rightarrow> string \<Rightarrow> error + buffer" where
  "synthesizeSpeech env text language =
     (case tts env text of
        Some buffer \<Rightarrow> Inr buffer
      | None \<Rightarrow> Inl ServiceError)"

definition sendAudioToParticipant ::
  "environment \<Rightarrow> (string \<times> stream) list \<Rightarrow> buffer \<Rightarrow> string \<Rightarrow> session \<Rightarrow> effect list" where
  "sendAudioToParticipant env streams audioData targetParticipant session =
     (let streamKey = sessionId session @ ''-'' @ targetParticipant
      in case map_of streams streamKey of
           None \<Rightarrow> []
         | Some stream \<Rightarrow>
             (let mediaMessage =
                    \<lparr>event = ''media'',
                     streamSid = ''stream-'' @ sessionId session @ ''-'' @ targetParticipant,
                     payload = audioData\<rparr>
              in if readyState env (ws stream) = 1
                 then [WsSend (ws stream) mediaMessage]
                 else []))"

definition translateAndForwardAudio ::
  "environment \<Rightarrow> (string \<times> stream) list \<Rightarrow> buffer \<Rightarrow> string option \<Rightarrow> session \<Rightarrow> effect list" where
  "translateAndForwardAudio env streams audioData sourceParticipant session =
     (let sourceLanguage =
            (if sourceParticipant = Some ''phone'' then phone (languages session)
             else web (languages session));
          targetLanguage =
            (if sourceParticipant = Some ''phone'' then web (languages session)
             else phone (languages session))
      in if sourceLanguage = targetLanguage then []
         else
           (case convertMulawToWav audioData of
              Inl e \<Rightarrow> []
            | Inr wavAudio \<Rightarrow>
                Transcribe wavAudio sourceLanguage #
                (case transcribeAudio env wavAudio sourceLanguage of
                   None \<Rightarrow> []
                 | Some transcription \<Rightarrow>
                     if transcription = [] \<or> length (trim transcription) = 0 then []
                     else
                       Translate transcription sourceLanguage targetLanguage #
                       (let translation =
                              translateText env transcription sourceLanguage targetLanguage
                        in Synthesize translation targetLanguage #
                           (case synthesizeSpeech env translation targetLanguage of
                              Inl e \<Rightarrow> []
                            | Inr translatedAudio \<Rightarrow>
                                (case convertWavToMulaw translatedAudio of
                                   Inl e \<Rightarrow> []
                                 | Inr mulawAudio \<Rightarrow>
                                     (let target =
                                            (if sourceParticipant = Some ''phone''
                                             then ''web'' else ''phone'')
                                      in Route mulawAudio target #
                                         sendAudioToParticipant env streams mulawAudio
                                           target session)))))))"

definition processAudioForTranslation ::
  "environment \<Rightarrow> (string \<times> stream) list \<Rightarrow> buffer option \<Rightarrow> string option \<Rightarrow> session
     \<Rightarrow> session \<times> effect list" where
  "processAudioForTranslation env streams media participant session =
     (case media of
        None \<Rightarrow> (session, [])
      | Some audioData \<Rightarrow>
          (let bufferKey = sessionId session @ ''-'' @ interpolate participant;
               session =
                 (if map_of (audioBuffers session) bufferKey = None
                  then session\<lparr>audioBuffers := AList.update bufferKey [] (audioBuffers session)\<rparr>
                  else session);
               buffer = (case map_of (audioBuffers session) bufferKey of
                           Some b \<Rightarrow> b | None \<Rightarrow> []);
               buffer = buffer @ audioData
           in if AUDIO_CONFIG_chunkSize \<le> length buffer
              then (let audioToProcess = take AUDIO_CONFIG_chunkSize buffer;
                        remainingBuffer = drop AUDIO_CONFIG_chunkSize buffer;
                        session = session\<lparr>audioBuffers :=
                                    AList.update bufferKey remainingBuffer (audioBuffers session)\<rparr>
                    in (session,
                        Pipeline audioToProcess participant #
                        translateAndForwardAudio env streams audioToProcess participant session))
              else (session\<lparr>audioBuffers :=
                              AList.update bufferKey buffer (audioBuffers session)\<rparr>, [])))"

text \<open>
  The media messages of one connection. The handler of a message runs to its first
  suspension before the next message is taken, so the buffers are updated in the order
  of the messages: each message is given to \<open>processAudioForTranslation\<close> with the
  session as the previous message left it. The pipelines that the messages start are not
  awaited by the next message and may overlap in time: the effects are kept per message,
  in the order each pipeline has them, and nothing is said about the order between the
  effects of different messages. Each message comes with the services and the streams as
  they are while its pipeline runs.
\<close>

type_synonym arrival = "environment \<times> (string \<times> stream) list \<times> buffer option"

fun media_messages ::
  "string option \<Rightarrow> session \<Rightarrow> arrival list \<Rightarrow> session \<times> effect list list" where
  "media_messages participant session [] = (session, [])"
| "media_messages participant session ((env, streams, media) # rest) =
     (let (session', effects) =
            processAudioForTranslation env streams media participant session;
          (session'', effects') = media_messages participant session' rest
      in (session'', effects # effects'))"

section \<open>Call-control handlers\<close>

text \<open>
  A handler takes the time of the request, the request and the system, and returns its
  answer together with the system it leaves. A session object that a handler changes in
  place is written back under the key it is stored under. A local name that clashes
  with a field carries a prime. Reading a property under an absent name uses the text
  \<open>undefined\<close> as the name.
\<close>

definition property_key :: "string option \<Rightarrow> string" where
  "property_key v = (case v of None \<Rightarrow> ''undefined'' | Some s \<Rightarrow> s)"

definition handleWebCallWithSession ::
  "int \<Rightarrow> request \<Rightarrow> system \<Rightarrow> string \<Rightarrow> session \<Rightarrow> verb list \<times> system" where
  "handleWebCallWithSession now req sys key session =
     (let response =
            [ConnectStream
               (''wss://'' @ host req @ ''/media-stream?session='' @ sessionId session
                  @ ''&participant=web'')
               ''both_tracks'',
             DialConference (conferenceId session)
               \<lparr>startConferenceOnEnter = True, endConferenceOnExit = False, waitUrl = [],
                maxParticipants = None, recordConference = None,
                statusCallback =
                  ''https://'' @ host req @ ''/conference-status?session=''
                    @ sessionId session @ ''&participant=web'',
                statusCallbackEvent = [''start'', ''end'', ''join'', ''leave''],
                statusCallbackMethod = ''POST''\<rparr>];
          session =
            session\<lparr>participants :=
                      AList.update ''web''
                        \<lparr>p_callSid = b_CallSid req, p_from = b_From req, p_to = b_To req,
                         joinedAt = now, leftAt = None\<rparr>
                        (participants session),
                    status := ''web_joining''\<rparr>
      in (response, sys\<lparr>activeSessions := AList.update key session (activeSessions sys)\<rparr>))"

definition handleIncomingCall :: "int \<Rightarrow> request \<Rightarrow> system \<Rightarrow> verb list \<times> system" where
  "handleIncomingCall now req sys =
     (let sessionId' = q_session req;
          participantType = (if truthy (q_type req) then property_key (q_type req) else ''phone'')
      in if participantType = ''web'' \<and> \<not> truthy sessionId' \<and> truthy (b_From req)
            \<and> startsWith (property_key (b_From req)) ''client:''
         then
           (case sort_key (\<lambda>(k, s). - createdAt s)
                   (filter (\<lambda>(k, s). status s = ''phone_answered'' \<or> status s = ''phone_calling'')
                      (activeSessions sys)) of
              (key, recentSession) # _ \<Rightarrow> handleWebCallWithSession now req sys key recentSession
            | [] \<Rightarrow>
                ([Say ''No active translation session found. Please start a new session.'',
                  Hangup], sys))
         else
           (case (if truthy sessionId' then map_of (activeSessions sys) (property_key sessionId')
                  else None) of
              None \<Rightarrow>
                ([Say ''Sorry, this session is not available. Please try again.'', Hangup], sys)
            | Some session \<Rightarrow>
                (let response =
                       [ConnectStream
                          (''wss://'' @ host req @ ''/media-stream?session=''
                             @ property_key sessionId' @ ''&participant='' @ participantType)
                          ''both_tracks'',
                        DialConference (conferenceId session)
                          \<lparr>startConferenceOnEnter = True, endConferenceOnExit = False,
                           waitUrl =
                             (if participantType = ''phone''
                              then ''http://twimlets.com/holdmusic?Bucket=com.twilio.music.ambient''
                              else []),
                           maxParticipants = Some 10, recordConference = Some False,
                           statusCallback =
                             ''https://'' @ host req @ ''/conference-status?session=''
                               @ property_key sessionId' @ ''&participant='' @ participantType,
                           statusCallbackEvent = [''start'', ''end'', ''join'', ''leave''],
                           statusCallbackMethod = ''POST''\<rparr>];
                     session =
                       session\<lparr>participants :=
                                 AList.update participantType
                                   \<lparr>p_callSid = b_CallSid req, p_from = b_From req,
                                    p_to = b_To req, joinedAt = now, leftAt = None\<rparr>
                                   (participants session)\<rparr>
                 in (response,
                     sys\<lparr>activeSessions :=
                           AList.update (property_key sessionId') session (activeSessions sys)\<rparr>))))"

definition handleWebCall :: "int \<Rightarrow> request \<Rightarrow> system \<Rightarrow> verb list \<times> system" where
  "handleWebCall now req sys =
     (case filter (\<lambda>(k, s). status s = ''phone_answered'' \<or> status s = ''phone_calling'')
             (activeSessions sys) of
        (key, availableSession) # _ \<Rightarrow>
          (let response =
                 [ConnectStream
                    (''wss://'' @ host req @ ''/media-stream?session=''
                       @ sessionId availableSession @ ''&participant=web'')
                    ''both_tracks'',
                  DialConference (conferenceId availableSession)
                    \<lparr>startConferenceOnEnter = True, endConferenceOnExit = False, waitUrl = [],
                     maxParticipants = None, recordConference = None,
                     statusCallback =
                       ''https://'' @ host req @ ''/conference-status?session=''
                         @ sessionId availableSession @ ''&participant=web'',
                     statusCallbackEvent = [''start'', ''end'', ''join'', ''leave''],
                     statusCallbackMethod = ''POST''\<rparr>];
               availableSession =
                 availableSession\<lparr>status := ''web_joining'',
                   participants :=
                     AList.update ''web''
                       \<lparr>p_callSid = b_CallSid req, p_from = b_From req, p_to = None,
                        joinedAt = now, leftAt = None\<rparr>
                       (participants availableSession)\<rparr>
           in (response,
               sys\<lparr>activeSessions := AList.update key availableSession (activeSessions sys)\<rparr>))
      | [] \<Rightarrow>
          ([Say (''No active translation session found. ''
                  @ ''Please ask someone to start a phone session first.''),
            Hangup], sys))"

definition call_status :: "int \<Rightarrow> request \<Rightarrow> system \<Rightarrow> system" where
  "call_status now req sys =
     (let CallStatus = b_CallStatus req;
          sessionId' = q_session req
      in case (if truthy sessionId' then map_of (activeSessions sys) (property_key sessionId')
               else None) of
           None \<Rightarrow> sys
         | Some session \<Rightarrow>
             (let session = session\<lparr>lastCallStatus := CallStatus, lastStatusUpdate := Some now\<rparr>;
                  session =
                    (if CallStatus = Some ''answered'' then session\<lparr>status := ''phone_answered''\<rparr>
                     else if CallStatus = Some ''completed'' \<or> CallStatus = Some ''failed''
                     then session\<lparr>status := ''call_ended''\<rparr>
                     else session)
              in sys\<lparr>activeSessions :=
                       AList.update (property_key sessionId') session (activeSessions sys)\<rparr>))"

definition conference_status :: "int \<Rightarrow> request \<Rightarrow> system \<Rightarrow> system" where
  "conference_status now req sys =
     (let StatusCallbackEvent = b_StatusCallbackEvent req;
          sessionId' = q_session req;
          participantType = q_participant req
      in case (if truthy sessionId' then map_of (activeSessions sys) (property_key sessionId')
               else None) of
           None \<Rightarrow> sys
         | Some session \<Rightarrow>
             (let store = (\<lambda>session sys.
                    sys\<lparr>activeSessions :=
                          AList.update (property_key sessionId') session (activeSessions sys)\<rparr>)
              in if StatusCallbackEvent = Some ''participant-join'' then
                   (if participantType = Some ''web''
                    then store (session\<lparr>status := ''web_joined''\<rparr>) sys
                    else if participantType = Some ''phone''
                    then store (session\<lparr>status := ''phone_in_conference''\<rparr>) sys
                    else sys)
                 else if StatusCallbackEvent = Some ''participant-leave'' then
                   (case map_of (participants session) (property_key participantType) of
                      Some p \<Rightarrow>
                        store (session\<lparr>participants :=
                                 AList.update (property_key participantType)
                                   (p\<lparr>leftAt := Some now\<rparr>) (participants session)\<rparr>) sys
                    | None \<Rightarrow> sys)
                 else if StatusCallbackEvent = Some ''conference-start'' then
                   store (session\<lparr>status := ''conference_active''\<rparr>) sys
                 else if StatusCallbackEvent = Some ''conference-end'' then
                   (store (session\<lparr>status := ''conference_ended''\<rparr>) sys)
                     \<lparr>timers := timers sys @ [(now + 60000, property_key sessionId')]\<rparr>
                 else sys))"

text \<open>
  \<open>POST /create-session\<close>. The three fields of the body are absent, \<open>null\<close> or a
  string: a default language replaces an absent field only, and \<open>null\<close> names no
  language. \<open>uuid\<close> is what \<open>uuidv4()\<close> returns and \<open>call\<close> what placing the call
  returns: the call's id, or \<open>None\<close> when it throws, which leaves the new session in
  the registry with status \<open>created\<close>. The answer is the HTTP status.
\<close>

datatype js_value = Undefined | Null | Str string

definition create_session ::
  "int \<Rightarrow> string \<Rightarrow> js_value \<Rightarrow> js_value \<Rightarrow> js_value \<Rightarrow> string option
     \<Rightarrow> system \<Rightarrow> nat \<times> system" where
  "create_session now uuid phoneNumber' phoneLanguage webLanguage call sys =
     (let phoneLanguage = (case phoneLanguage of Undefined \<Rightarrow> Str ''es'' | v \<Rightarrow> v);
          webLanguage = (case webLanguage of Undefined \<Rightarrow> Str ''en'' | v \<Rightarrow> v)
      in case phoneNumber' of
           Undefined \<Rightarrow> (400, sys)
         | Null \<Rightarrow> (400, sys)
         | Str number \<Rightarrow>
             if number = [] then (400, sys)
             else
               (case (phoneLanguage, webLanguage) of
                  (Str phoneLanguage, Str webLanguage) \<Rightarrow>
                    if \<not> supported phoneLanguage \<or> \<not> supported webLanguage then (400, sys)
                    else
                      (let session =
                             \<lparr>sessionId = uuid, conferenceId = ''translation-'' @ uuid,
                              phoneNumber = number,
                              languages = \<lparr>phone = phoneLanguage, web = webLanguage\<rparr>,
                              status = ''created'', createdAt = now, participants = [],
                              audioBuffers = [], callSid = None, lastCallStatus = None,
                              lastStatusUpdate = None\<rparr>;
                           sys = sys\<lparr>activeSessions :=
                                       AList.update uuid session (activeSessions sys)\<rparr>
                       in case call of
                            None \<Rightarrow> (500, sys)
                          | Some sid \<Rightarrow>
                              (200,
                               sys\<lparr>activeSessions :=
                                     AList.update uuid
                                       (session\<lparr>callSid := Some sid,
                                                status := ''phone_calling''\<rparr>)
                                       (activeSessions sys)\<rparr>))
                | _ \<Rightarrow> (400, sys)))"

section \<open>Media streams\<close>

text \<open>
  A media-stream connection carries the \<open>session\<close> and \<open>participant\<close> parameters of its
  URL, each absent (\<open>null\<close>) or a string. With no such session the socket is closed;
  otherwise the stream is stored under \<open>`${sessionId}-${participant}`\<close>. A \<open>stop\<close> message
  and the closing of the socket delete that key.
\<close>

definition handleMediaStream ::
  "nat \<Rightarrow> string option \<Rightarrow> string option \<Rightarrow> system \<Rightarrow> effect list \<times> system" where
  "handleMediaStream ws' sessionId' participant sys =
     (case (case sessionId' of None \<Rightarrow> None | Some k \<Rightarrow> map_of (activeSessions sys) k) of
        None \<Rightarrow> ([WsClose ws'], sys)
      | Some session \<Rightarrow>
          (let streamKey = interpolate sessionId' @ ''-'' @ interpolate participant
           in ([],
               sys\<lparr>activeStreams :=
                     AList.update streamKey
                       \<lparr>ws = ws', stream_participant = participant,
                        stream_sessionId = interpolate sessionId'\<rparr>
                       (activeStreams sys)\<rparr>)))"

definition stream_closed :: "string option \<Rightarrow> string option \<Rightarrow> system \<Rightarrow> system" where
  "stream_closed sessionId' participant sys =
     (let streamKey = interpolate sessionId' @ ''-'' @ interpolate participant
      in sys\<lparr>activeStreams := AList.delete streamKey (activeStreams sys)\<rparr>)"

section \<open>Session ids and reachable systems\<close>

text \<open>
  \<open>uuidv4()\<close> belongs to a library; what the program relies on is the shape of its
  result: 36 characters, hyphens at positions 8, 13, 18 and 23, hexadecimal digits
  elsewhere. A system is reachable when the handlers above produce it from the empty
  registries, with session ids of that shape.
\<close>

definition is_hex :: "char \<Rightarrow> bool" where
  "is_hex c \<longleftrightarrow> c \<in> set ''0123456789abcdef''"

definition is_uuid :: "string \<Rightarrow> bool" where
  "is_uuid s \<longleftrightarrow>
     length s = 36 \<and>
     list_all (\<lambda>i. if i \<in> set [8, 13, 18, 23] then s ! i = CHR ''-'' else is_hex (s ! i))
       [0..<36]"

inductive reachable :: "system \<Rightarrow> bool" where
  start: "reachable \<lparr>activeSessions = [], activeStreams = [], timers = []\<rparr>"
| create: "reachable sys \<Longrightarrow> is_uuid uuid \<Longrightarrow>
     reachable (snd (create_session now uuid phoneNumber' phoneLanguage webLanguage call sys))"
| incoming: "reachable sys \<Longrightarrow> reachable (snd (handleIncomingCall now req sys))"
| voice: "reachable sys \<Longrightarrow> reachable (snd (handleWebCall now req sys))"
| call: "reachable sys \<Longrightarrow> reachable (call_status now req sys)"
| conference: "reachable sys \<Longrightarrow> reachable (conference_status now req sys)"
| timeout: "reachable sys \<Longrightarrow> reachable (elapse now sys)"
| connect: "reachable sys \<Longrightarrow> reachable (snd (handleMediaStream ws' sessionId' participant sys))"
| disconnect: "reachable sys \<Longrightarrow> reachable (stream_closed sessionId' participant sys)"
| media: "reachable sys \<Longrightarrow> map_of (activeSessions sys) key = Some session \<Longrightarrow>
     reachable (sys\<lparr>activeSessions :=
       AList.update key
         (fst (processAudioForTranslation env (activeStreams sys) media' participant session))
         (activeSessions sys)\<rparr>)"

text \<open>
  Two properties of the registries that every reachable system has: a session is stored
  under its own id, which has the shape above; and a stream is stored under the key built
  from the session id and the participant it records, the session id having that shape.
\<close>

definition wf_sessions :: "(string \<times> session) list \<Rightarrow> bool" where
  "wf_sessions sessions \<longleftrightarrow> (\<forall>(key, s)\<in>set sessions. is_uuid key \<and> sessionId s = key)"

definition wf_streams :: "(string \<times> stream) list \<Rightarrow> bool" where
  "wf_streams streams \<longleftrightarrow>
     (\<forall>(key, st)\<in>set streams.
        is_uuid (stream_sessionId st) \<and>
        key = stream_sessionId st @ ''-'' @ interpolate (stream_participant st))"

text \<open>
  What a call-control handler may do to the registries: it leaves the streams alone, and
  either leaves the sessions alone or replaces one stored session by a session with the
  same id.
\<close>

definition changes_one :: "system \<Rightarrow> system \<Rightarrow> bool" where
  "changes_one sys sys' \<longleftrightarrow>
     activeStreams sys' = activeStreams sys \<and>
     (activeSessions sys' = activeSessions sys \<or>
      (\<exists>key s s'. (key, s) \<in> set (activeSessions sys) \<and> sessionId s' = sessionId s \<and>
         activeSessions sys' = AList.update key s' (activeSessions sys)))"

section \<open>Frames and pending bytes\<close>

text \<open>
  What the statements about framing speak of: the frames that a list of effects hands to
  the pipeline, the bytes a session holds back for a participant, and the bytes that a
  list of media messages carries (a message without a payload carries none).
\<close>

fun emitted :: "effect list \<Rightarrow> buffer list" where
  "emitted [] = []"
| "emitted (Pipeline frame participant # effects) = frame # emitted effects"
| "emitted (e # effects) = emitted effects"

definition pending :: "session \<Rightarrow> string option \<Rightarrow> buffer" where
  "pending session participant =
     (case map_of (audioBuffers session) (sessionId session @ ''-'' @ interpolate participant) of
        Some b \<Rightarrow> b
      | None \<Rightarrow> [])"

fun media_of :: "arrival list \<Rightarrow> buffer option list" where
  "media_of [] = []"
| "media_of ((env, streams, media) # rest) = media # media_of rest"

fun fed :: "buffer option list \<Rightarrow> buffer" where
  "fed [] = []"
| "fed (None # rest) = fed rest"
| "fed (Some audioData # rest) = audioData @ fed rest"

section \<open>A concrete system\<close>

text \<open>
  One session between a Spanish-speaking phone and an English-speaking browser, whose
  browser leg has an open media stream on socket 3; services that hear \<open>hola\<close>, fail
  to translate and synthesise two samples; and variants of both. A second session,
  between a French-speaking phone and an English-speaking browser, has streams on the
  sockets 4 and 5; it stands beside the first one in a system with two sessions and their
  streams, and in a system where both phones are being called. A frame of silence is
  1600 zero bytes.
\<close>

definition example_session :: session where
  "example_session =
     \<lparr>sessionId = ''123e4567-e89b-42d3-a456-426614174000'',
      conferenceId = ''translation-123e4567-e89b-42d3-a456-426614174000'',
      phoneNumber = ''+15550100'',
      languages = \<lparr>phone = ''es'', web = ''en''\<rparr>,
      status = ''created'', createdAt = 1000, participants = [], audioBuffers = [],
      callSid = None, lastCallStatus = None, lastStatusUpdate = None\<rparr>"

definition example_streams :: "(string \<times> stream) list" where
  "example_streams =
     [(''123e4567-e89b-42d3-a456-426614174000-web'',
       \<lparr>ws = 3, stream_participant = Some ''web'',
        stream_sessionId = ''123e4567-e89b-42d3-a456-426614174000''\<rparr>)]"

definition example_system :: system where
  "example_system =
     \<lparr>activeSessions = [(''123e4567-e89b-42d3-a456-426614174000'', example_session)],
      activeStreams = example_streams, timers = []\<rparr>"

definition example_environment :: environment where
  "example_environment =
     \<lparr>whisper = (\<lambda>audio language. Some ''hola''),
      chat = (\<lambda>text fromLang toLang. None),
      tts = (\<lambda>text. Some [0, 0, 8, 0]),
      readyState = (\<lambda>socket. 1)\<rparr>"

definition mute_environment :: environment where
  "mute_environment = example_environment\<lparr>tts := (\<lambda>text. None)\<rparr>"

definition calling_system :: system where
  "calling_system =
     \<lparr>activeSessions =
        [(''123e4567-e89b-42d3-a456-426614174000'', example_session\<lparr>status := ''phone_calling''\<rparr>)],
      activeStreams = [], timers = []\<rparr>"

definition web_client_request :: request where
  "web_client_request =
     \<lparr>q_session = None, q_type = Some ''web'', q_participant = None,
      b_From = Some ''client:alice'', b_To = None, b_CallSid = Some ''CA1'',
      b_CallStatus = None, b_StatusCallbackEvent = None, host = ''relay.example''\<rparr>"

definition unknown_session_request :: request where
  "unknown_session_request =
     \<lparr>q_session = Some ''no-such-session'', q_type = Some ''phone'', q_participant = None,
      b_From = Some ''+15550100'', b_To = None, b_CallSid = Some ''CA2'',
      b_CallStatus = None, b_StatusCallbackEvent = None, host = ''relay.example''\<rparr>"

definition status_request ::
  "string \<Rightarrow> string option \<Rightarrow> string option \<Rightarrow> string option \<Rightarrow> request" where
  "status_request sid who callStatus conferenceEvent =
     \<lparr>q_session = Some sid, q_type = None, q_participant = who,
      b_From = None, b_To = None, b_CallSid = None,
      b_CallStatus = callStatus, b_StatusCallbackEvent = conferenceEvent,
      host = ''relay.example''\<rparr>"

definition ended_system :: system where
  "ended_system =
     conference_status 6000
       (status_request ''123e4567-e89b-42d3-a456-426614174000'' (Some ''web'') None
          (Some ''conference-end''))
       (conference_status 5000
          (status_request ''123e4567-e89b-42d3-a456-426614174000'' (Some ''web'') None
             (Some ''participant-join''))
          (conference_status 4000
             (status_request ''123e4567-e89b-42d3-a456-426614174000'' (Some ''phone'') None
                (Some ''conference-start''))
             (conference_status 3000
                (status_request ''123e4567-e89b-42d3-a456-426614174000'' (Some ''phone'') None
                   (Some ''participant-join''))
                (call_status 2000
                   (status_request ''123e4567-e89b-42d3-a456-426614174000'' None
                      (Some ''answered'') None)
                   example_system))))"

definition second_session :: session where
  "second_session =
     \<lparr>sessionId = ''9b2c1d3e-4f5a-4b6c-8d7e-0f1a2b3c4d5e'',
      conferenceId = ''translation-9b2c1d3e-4f5a-4b6c-8d7e-0f1a2b3c4d5e'',
      phoneNumber = ''+15550101'',
      languages = \<lparr>phone = ''fr'', web = ''en''\<rparr>,
      status = ''created'', createdAt = 2000, participants = [], audioBuffers = [],
      callSid = None, lastCallStatus = None, lastStatusUpdate = None\<rparr>"

definition two_session_system :: system where
  "two_session_system =
     \<lparr>activeSessions =
        [(''123e4567-e89b-42d3-a456-426614174000'', example_session),
         (''9b2c1d3e-4f5a-4b6c-8d7e-0f1a2b3c4d5e'', second_session)],
      activeStreams =
        [(''123e4567-e89b-42d3-a456-426614174000-web'',
          \<lparr>ws = 3, stream_participant = Some ''web'',
           stream_sessionId = ''123e4567-e89b-42d3-a456-426614174000''\<rparr>),
         (''9b2c1d3e-4f5a-4b6c-8d7e-0f1a2b3c4d5e-web'',
          \<lparr>ws = 4, stream_participant = Some ''web'',
           stream_sessionId = ''9b2c1d3e-4f5a-4b6c-8d7e-0f1a2b3c4d5e''\<rparr>),
         (''9b2c1d3e-4f5a-4b6c-8d7e-0f1a2b3c4d5e-phone'',
          \<lparr>ws = 5, stream_participant = Some ''phone'',
           stream_sessionId = ''9b2c1d3e-4f5a-4b6c-8d7e-0f1a2b3c4d5e''\<rparr>)],
      timers = []\<rparr>"

definition two_calls_system :: system where
  "two_calls_system =
     \<lparr>activeSessions =
        [(''123e4567-e89b-42d3-a456-426614174000'', example_session\<lparr>status := ''phone_calling''\<rparr>),
         (''9b2c1d3e-4f5a-4b6c-8d7e-0f1a2b3c4d5e'', second_session\<lparr>status := ''phone_answered''\<rparr>)],
      activeStreams = [], timers = []\<rparr>"

definition silence :: buffer where
  "silence = replicate 1600 0"

definition same_language_session :: session where
  "same_language_session = example_session\<lparr>languages := \<lparr>phone = ''es'', web = ''es''\<rparr>\<rparr>"

section \<open>Properties of the codec\<close>



lemma mulawToLinear_bytes:
  "\<forall>b\<in>set [0..255]. - 32256 \<le> mulawToLinear b \<and> mulawToLinear b \<le> 32256"
  by code_simp

lemma mulawToLinear_uint: "- 32256 \<le> mulawToLinear (uint (b :: byte)) \<and> mulawToLinear (uint b) \<le> 32256"
proof -
  have "0 \<le> uint b" "uint b < 256" using uint_bounded[of b] by simp_all
  hence "uint b \<in> set [0..255]" by simp
  thus ?thesis using mulawToLinear_bytes by blast
qed

lemma writeInt16LE_length:
  "writeInt16LE buf v offset = Inr buf' \<Longrightarrow> length buf' = length buf"
  by (auto simp: writeInt16LE_def split: if_splits)

lemma convertMulawToWav_loop_total:
  "length wavBuffer = 2 * length mulawData \<Longrightarrow>
   \<exists>wav. convertMulawToWav_loop mulawData wavBuffer i = Inr wav \<and> length wav = 2 * length mulawData"
proof (induction mulawData wavBuffer i rule: convertMulawToWav_loop.induct)
  case (1 mulawData wavBuffer i)
  show ?case
  proof (cases "i < length mulawData")
    case False
    thus ?thesis using "1.prems" by (subst convertMulawToWav_loop.simps) simp
  next
    case True
    define linear where "linear = mulawToLinear (uint (mulawData ! i))"
    have rng: "\<not> (linear < - 32768 \<or> 32767 < linear)"
      using mulawToLinear_uint[of "mulawData ! i"] by (simp add: linear_def)
    have off: "\<not> length wavBuffer < i * 2 + 2" using True "1.prems" by simp
    obtain wb where wb: "writeInt16LE wavBuffer linear (i * 2) = Inr wb"
      using rng off by (simp add: writeInt16LE_def)
    have len: "length wb = 2 * length mulawData"
      using writeInt16LE_length[OF wb] "1.prems" by simp
    have "\<exists>wav. convertMulawToWav_loop mulawData wb (i + 1) = Inr wav \<and> length wav = 2 * length mulawData"
      using "1.IH"[OF True refl refl] wb len by (simp add: linear_def)
    thus ?thesis
      using True wb by (subst convertMulawToWav_loop.simps) (simp add: linear_def Let_def)
  qed
qed

text \<open>
  C10. For every byte value \<open>b\<close> from 0 to 255, \<open>mulawToLinear b\<close> lies between -32256
  and 32256, strictly inside the signed 16-bit range; so \<open>writeInt16LE\<close> never gets a
  sample it rejects, and \<open>convertMulawToWav\<close> returns a buffer of twice the frame's
  length for every frame.
\<close>

theorem mulawToLinear_range:
  assumes "0 \<le> b" and "b \<le> 255"
  shows "- 32256 \<le> mulawToLinear b \<and> mulawToLinear b \<le> 32256 \<and>
         - 32768 < mulawToLinear b \<and> mulawToLinear b < 32767 \<and>
         (\<exists>wav. convertMulawToWav frame = Inr wav \<and> length wav = 2 * length frame)"
proof -
  have "b \<in> set [0..255]" using assms by simp
  hence r: "- 32256 \<le> mulawToLinear b \<and> mulawToLinear b \<le> 32256"
    using mulawToLinear_bytes by blast
  have "\<exists>wav. convertMulawToWav frame = Inr wav \<and> length wav = 2 * length frame"
    unfolding convertMulawToWav_def by (rule convertMulawToWav_loop_total) simp
  thus ?thesis using r by simp
qed

theorem mulawToLinear_range_witness:
  "(0::int) \<le> 255 \<and> mulawToLinear 255 = - 32256 \<and> - 32768 < mulawToLinear 255 \<and>
   convertMulawToWav [255, 0] = Inr [0, 130, 0, 0]"
proof -
  have a: "mulawToLinear 255 = - 32256" by code_simp
  have b: "convertMulawToWav [255, 0] = Inr [0, 130, 0, 0]" by code_simp
  show ?thesis using mulawToLinear_range[of 255 "[255, 0]"] a b by simp
qed





lemma window_mono:
  assumes "0 \<le> k" "k \<le> e" "e \<le> 7"
  shows "js_shl 0x1F (k + 3) \<le> js_shl 0x1F (e + 3)"
proof -
  have "k \<in> set [0..7]" "e \<in> set [0..7]" using assms by auto
  have "\<forall>k\<in>set [0..7]. \<forall>e\<in>set [0..7]. k \<le> e \<longrightarrow> js_shl 0x1F (k + 3) \<le> js_shl 0x1F (e + 3)"
    by code_simp
  thus ?thesis using \<open>k \<in> set [0..7]\<close> \<open>e \<in> set [0..7]\<close> assms(2) by blast
qed







text \<open>
  C3. The claim is that \<open>linearToMulaw (mulawToLinear b)\<close> is within one step of \<open>b\<close>
  for all 256 bytes. At \<open>b = 0\<close> the decoder gives 0 and the encoder gives -1, which a
  buffer keeps as 255: the encoder complements its result and the decoder does not
  complement its argument. Neither function can throw.
\<close>

theorem round_trip_at_zero:
  "mulawToLinear 0 = 0 \<and> linearToMulaw (mulawToLinear 0) = - 1 \<and>
   uint (ToUint8 (linearToMulaw (mulawToLinear 0))) = 255"
  by code_simp

section \<open>Properties of the pipeline\<close>

lemma convertWavToMulaw_loop_total:
  "length mulawBuffer = length wavData div 2 \<Longrightarrow>
   \<exists>mulaw. convertWavToMulaw_loop wavData mulawBuffer i = Inr mulaw \<and>
     length mulaw = length wavData div 2"
proof (induction wavData mulawBuffer i rule: convertWavToMulaw_loop.induct)
  case (1 wavData mulawBuffer i)
  show ?case
  proof (cases "i < length mulawBuffer")
    case False
    thus ?thesis using "1.prems" by (subst convertWavToMulaw_loop.simps) simp
  next
    case True
    hence "i * 2 + 2 \<le> length wavData" using "1.prems" by simp
    then obtain linear where rd: "readInt16LE wavData (i * 2) = Inr linear"
      by (simp add: readInt16LE_def Let_def)
    have "\<exists>mulaw. convertWavToMulaw_loop wavData
            (mulawBuffer[i := ToUint8 (linearToMulaw linear)]) (i + 1) = Inr mulaw \<and>
          length mulaw = length wavData div 2"
      using "1.IH"[OF True rd] "1.prems" by simp
    thus ?thesis using True rd by (subst convertWavToMulaw_loop.simps) simp
  qed
qed

lemma convertWavToMulaw_total:
  "\<exists>mulaw. convertWavToMulaw wavData = Inr mulaw \<and> length mulaw = length wavData div 2"
  unfolding convertWavToMulaw_def by (rule convertWavToMulaw_loop_total) simp

lemma convertMulawToWav_total:
  "\<exists>wav. convertMulawToWav frame = Inr wav \<and> length wav = 2 * length frame"
  unfolding convertMulawToWav_def by (rule convertMulawToWav_loop_total) simp

text \<open>
  C4. In a session whose phone language equals its web language,
  \<open>translateAndForwardAudio\<close> has no effect at all for any frame from either participant:
  no transcription, translation or synthesis, no routing and nothing sent on a socket.
  A media message in such a session has at most the effect of handing one frame to the
  pipeline.
\<close>

theorem same_language_skip:
  assumes "phone (languages session) = web (languages session)"
  shows "translateAndForwardAudio env streams audioData sourceParticipant session = [] \<and>
         (snd (processAudioForTranslation env streams media participant session) = [] \<or>
          (\<exists>frame. snd (processAudioForTranslation env streams media participant session)
             = [Pipeline frame participant]))"
proof -
  have skip: "translateAndForwardAudio e st a p s = []"
    if "phone (languages s) = web (languages s)" for e st a p s
    using that by (simp add: translateAndForwardAudio_def)
  show ?thesis
    using assms
    by (auto simp: skip processAudioForTranslation_def Let_def split: option.splits)
qed


theorem same_language_skip_witness:
  "phone (languages same_language_session) = web (languages same_language_session) \<and>
   translateAndForwardAudio example_environment example_streams [1, 2] (Some ''phone'')
     same_language_session = []"
  using same_language_skip[of same_language_session example_environment example_streams
          "[1, 2]" "Some ''phone''" None None]
  by (simp add: same_language_session_def example_session_def)

lemma example_frame:
  "convertMulawToWav [1, 2] = Inr [8, 0, 16, 0]"
  "convertWavToMulaw [0, 0, 8, 0] = Inr [255, 254]"
  by code_simp+

text \<open>
  C5. When the pipeline calls the translation for a frame and that call fails, the
  transcript is not empty, \<open>translateText\<close> returns it as it is, and the pipeline goes
  on: synthesis is called with exactly the transcript and the target language; and when
  synthesis delivers audio, the pipeline encodes it and routes it to the other
  participant.
\<close>

theorem translation_fallback:
  assumes called: "Translate transcription src tgt \<in>
                     set (translateAndForwardAudio env streams audioData sourceParticipant session)"
    and failed: "chat env transcription src tgt = None"
  shows "transcription \<noteq> [] \<and>
         translateText env transcription src tgt = transcription \<and>
         (\<exists>wav rest.
            translateAndForwardAudio env streams audioData sourceParticipant session =
              [Transcribe wav src, Translate transcription src tgt,
               Synthesize transcription tgt] @ rest \<and>
            (\<forall>pcm. tts env transcription = Some pcm \<longrightarrow>
               (\<exists>mulaw. convertWavToMulaw pcm = Inr mulaw \<and>
                  rest =
                    Route mulaw (if sourceParticipant = Some ''phone'' then ''web'' else ''phone'')
                    # sendAudioToParticipant env streams mulaw
                        (if sourceParticipant = Some ''phone'' then ''web'' else ''phone'')
                        session)))"
proof -
  define sl where "sl = (if sourceParticipant = Some ''phone'' then phone (languages session)
                          else web (languages session))"
  define tl where "tl = (if sourceParticipant = Some ''phone'' then web (languages session)
                          else phone (languages session))"
  define target where "target = (if sourceParticipant = Some ''phone'' then ''web'' else ''phone'')"
  define after where "after translation =
      (case synthesizeSpeech env translation tl of
         Inl e \<Rightarrow> []
       | Inr translatedAudio \<Rightarrow>
           (case convertWavToMulaw translatedAudio of
              Inl e \<Rightarrow> []
            | Inr mulawAudio \<Rightarrow>
                Route mulawAudio target # sendAudioToParticipant env streams mulawAudio target session))"
    for translation
  have shape: "translateAndForwardAudio env streams audioData sourceParticipant session =
      (if sl = tl then []
       else case convertMulawToWav audioData of
              Inl e \<Rightarrow> []
            | Inr wavAudio \<Rightarrow>
                Transcribe wavAudio sl #
                (case transcribeAudio env wavAudio sl of
                   None \<Rightarrow> []
                 | Some t \<Rightarrow>
                     if t = [] \<or> length (trim t) = 0 then []
                     else Translate t sl tl #
                          Synthesize (translateText env t sl tl) tl #
                          after (translateText env t sl tl)))"
    unfolding translateAndForwardAudio_def Let_def sl_def tl_def target_def after_def
    by (rule refl)
  have no_translate: "Translate a b c \<notin> set (after x)" for a b c x
    by (auto simp: after_def sendAudioToParticipant_def Let_def split: sum.splits option.splits)
  have "\<exists>wav. convertMulawToWav audioData = Inr wav \<and>
          transcribeAudio env wav sl = Some transcription \<and>
          transcription \<noteq> [] \<and> length (trim transcription) \<noteq> 0 \<and>
          sl \<noteq> tl \<and> src = sl \<and> tgt = tl"
  proof (cases "convertMulawToWav audioData")
    case (Inl e)
    thus ?thesis using called unfolding shape by (simp split: if_splits)
  next
    case (Inr w)
    show ?thesis
    proof (cases "transcribeAudio env w sl")
      case None
      thus ?thesis using called Inr unfolding shape by (simp split: if_splits)
    next
      case (Some t)
      thus ?thesis
        using called Inr no_translate unfolding shape by (auto split: if_splits)
    qed
  qed
  then obtain wav where
    wav: "convertMulawToWav audioData = Inr wav"
    and heard: "transcribeAudio env wav sl = Some transcription"
    and nonblank: "transcription \<noteq> []" "length (trim transcription) \<noteq> 0"
    and langs: "sl \<noteq> tl" "src = sl" "tgt = tl"
    by blast
  have fallback: "translateText env transcription src tgt = transcription"
    using failed by (simp add: translateText_def)
  have effects: "translateAndForwardAudio env streams audioData sourceParticipant session =
      [Transcribe wav src, Translate transcription src tgt, Synthesize transcription tgt]
      @ after transcription"
    unfolding shape using wav heard nonblank langs fallback by simp
  have routed: "\<exists>mulaw. convertWavToMulaw pcm = Inr mulaw \<and>
      after transcription = Route mulaw target # sendAudioToParticipant env streams mulaw target session"
    if "tts env transcription = Some pcm" for pcm
  proof -
    obtain mulaw where "convertWavToMulaw pcm = Inr mulaw"
      using convertWavToMulaw_total by blast
    thus ?thesis using that by (simp add: after_def synthesizeSpeech_def)
  qed
  show ?thesis
    using nonblank(1) fallback effects routed unfolding target_def by blast
qed

theorem translation_fallback_witness:
  "Translate ''hola'' ''es'' ''en'' \<in>
     set (translateAndForwardAudio example_environment example_streams [1, 2] (Some ''phone'')
            example_session) \<and>
   chat example_environment ''hola'' ''es'' ''en'' = None \<and>
   tts example_environment ''hola'' = Some [0, 0, 8, 0] \<and>
   translateAndForwardAudio example_environment example_streams [1, 2] (Some ''phone'')
     example_session =
     [Transcribe [8, 0, 16, 0] ''es'', Translate ''hola'' ''es'' ''en'',
      Synthesize ''hola'' ''en'', Route [255, 254] ''web'',
      WsSend 3 \<lparr>event = ''media'',
                streamSid = ''stream-123e4567-e89b-42d3-a456-426614174000-web'',
                payload = [255, 254]\<rparr>] \<and>
   translateText example_environment ''hola'' ''es'' ''en'' = ''hola''"
proof -
  have t: "trim ''hola'' \<noteq> []"
    by (simp add: trim_def is_ws_def)
  have effects: "translateAndForwardAudio example_environment example_streams [1, 2]
        (Some ''phone'') example_session =
        [Transcribe [8, 0, 16, 0] ''es'', Translate ''hola'' ''es'' ''en'',
         Synthesize ''hola'' ''en'', Route [255, 254] ''web'',
         WsSend 3 \<lparr>event = ''media'',
                   streamSid = ''stream-123e4567-e89b-42d3-a456-426614174000-web'',
                   payload = [255, 254]\<rparr>]"
    using example_frame t
    by (simp add: translateAndForwardAudio_def transcribeAudio_def translateText_def
                  synthesizeSpeech_def sendAudioToParticipant_def example_environment_def
                  example_session_def example_streams_def Let_def)
  have called: "Translate ''hola'' ''es'' ''en'' \<in>
     set (translateAndForwardAudio example_environment example_streams [1, 2] (Some ''phone'')
            example_session)"
    by (simp add: effects)
  have failed: "chat example_environment ''hola'' ''es'' ''en'' = None"
    by (simp add: example_environment_def)
  have spoken: "tts example_environment ''hola'' = Some [0, 0, 8, 0]"
    by (simp add: example_environment_def)
  have "translateText example_environment ''hola'' ''es'' ''en'' = ''hola''"
    using translation_fallback[OF called failed] by blast
  thus ?thesis using called failed spoken effects by blast
qed

section \<open>Properties of the framing\<close>

lemma emitted_append: "emitted (es @ es') = emitted es @ emitted es'"
  by (induction es rule: emitted.induct) simp_all

lemma emitted_sendAudioToParticipant:
  "emitted (sendAudioToParticipant env streams audio target session) = []"
  by (simp add: sendAudioToParticipant_def Let_def split: option.splits)

lemma emitted_translateAndForwardAudio:
  "emitted (translateAndForwardAudio env streams frame participant session) = []"
  by (simp add: translateAndForwardAudio_def Let_def emitted_sendAudioToParticipant
           split: sum.splits option.splits)

lemma processAudioForTranslation_None:
  "processAudioForTranslation env streams None participant session = (session, [])"
  by (simp add: processAudioForTranslation_def)

lemma processAudioForTranslation_sessionId:
  "sessionId (fst (processAudioForTranslation env streams media participant session)) =
   sessionId session"
  by (simp add: processAudioForTranslation_def Let_def split: option.splits)

lemma processAudioForTranslation_step:
  assumes "buffer = pending session participant @ audioData"
  shows "pending (fst (processAudioForTranslation env streams (Some audioData) participant session))
           participant =
         (if 1600 \<le> length buffer then drop 1600 buffer else buffer) \<and>
         emitted (snd (processAudioForTranslation env streams (Some audioData) participant session)) =
         (if 1600 \<le> length buffer then [take 1600 buffer] else [])"
  using assms
  by (simp add: processAudioForTranslation_def pending_def Let_def AUDIO_CONFIG_chunkSize_def
                update_conv' emitted_translateAndForwardAudio
           split: option.splits)


lemma length_concat_frames:
  "\<forall>f\<in>set fs. length f = n \<Longrightarrow> length (concat fs) = n * length fs"
  by (induction fs) simp_all

text \<open>
  Whatever the chunks are, the frames handed to the pipeline have 1600 bytes each and,
  followed by the bytes still pending, they are the bytes pending before followed by
  the bytes fed: no byte is lost, repeated or reordered.
\<close>

lemma media_messages_conserves:
  "media_messages participant session arrivals = (session', effects) \<Longrightarrow>
   pending session participant @ fed (media_of arrivals) =
     concat (emitted (concat effects)) @ pending session' participant \<and>
   (\<forall>f\<in>set (emitted (concat effects)). length f = 1600)"
proof (induction arrivals arbitrary: session session' effects)
  case Nil
  thus ?case by simp
next
  case (Cons arrival rest)
  obtain env streams media where arrival: "arrival = (env, streams, media)"
    by (cases arrival)
  obtain s1 e1 where first: "processAudioForTranslation env streams media participant session = (s1, e1)"
    by (cases "processAudioForTranslation env streams media participant session")
  obtain s2 e2 where others: "media_messages participant s1 rest = (s2, e2)"
    by (cases "media_messages participant s1 rest")
  have final: "session' = s2" "effects = e1 # e2"
    using Cons.prems arrival first others by simp_all
  note ih = Cons.IH[OF others]
  show ?case
  proof (cases media)
    case None
    hence "s1 = session" "e1 = []"
      using first by (simp_all add: processAudioForTranslation_None)
    thus ?thesis using ih final None arrival by simp
  next
    case (Some audioData)
    define buffer where "buffer = pending session participant @ audioData"
    have step: "pending s1 participant = (if 1600 \<le> length buffer then drop 1600 buffer else buffer)"
               "emitted e1 = (if 1600 \<le> length buffer then [take 1600 buffer] else [])"
      using processAudioForTranslation_step[OF buffer_def, of env streams] first Some by simp_all
    have whole: "concat (emitted e1) @ pending s1 participant = buffer"
      by (simp add: step)
    have "pending session participant @ fed (media_of (arrival # rest)) =
          buffer @ fed (media_of rest)"
      using Some arrival by (simp add: buffer_def)
    also have "\<dots> = concat (emitted e1) @ (pending s1 participant @ fed (media_of rest))"
      by (simp only: whole[symmetric] append_assoc)
    also have "\<dots> = concat (emitted e1) @ concat (emitted (concat e2)) @ pending s2 participant"
      using ih by simp
    finally have "pending session participant @ fed (media_of (arrival # rest)) =
           concat (emitted e1) @ concat (emitted (concat e2)) @ pending s2 participant" .
    moreover have "\<forall>f\<in>set (emitted e1). length f = 1600"
      by (simp add: step)
    ultimately show ?thesis
      using ih final by (auto simp: emitted_append)
  qed
qed

text \<open>
  When no chunk is longer than one frame and fewer than 1600 bytes are pending at the
  start, fewer than 1600 bytes stay pending after every chunk.
\<close>

lemma media_messages_pending_bounded:
  "media_messages participant session arrivals = (session', effects) \<Longrightarrow>
   length (pending session participant) < 1600 \<Longrightarrow>
   \<forall>audioData. Some audioData \<in> set (media_of arrivals) \<longrightarrow> length audioData \<le> 1600 \<Longrightarrow>
   length (pending session' participant) < 1600"
proof (induction arrivals arbitrary: session session' effects)
  case Nil
  thus ?case by simp
next
  case (Cons arrival rest)
  obtain env streams media where arrival: "arrival = (env, streams, media)"
    by (cases arrival)
  obtain s1 e1 where first: "processAudioForTranslation env streams media participant session = (s1, e1)"
    by (cases "processAudioForTranslation env streams media participant session")
  obtain s2 e2 where others: "media_messages participant s1 rest = (s2, e2)"
    by (cases "media_messages participant s1 rest")
  have final: "session' = s2"
    using Cons.prems(1) arrival first others by simp
  have "length (pending s1 participant) < 1600"
  proof (cases media)
    case None
    thus ?thesis using first Cons.prems(2) by (simp add: processAudioForTranslation_None)
  next
    case (Some audioData)
    hence "length audioData \<le> 1600" using Cons.prems(3) arrival by simp
    thus ?thesis
      using processAudioForTranslation_step[OF refl, of env streams audioData participant session]
            first Some Cons.prems(2)
      by (simp split: if_splits)
  qed
  moreover have "\<forall>audioData. Some audioData \<in> set (media_of rest) \<longrightarrow> length audioData \<le> 1600"
    using Cons.prems(3) arrival by simp
  ultimately show ?case
    using Cons.IH[OF others] final by simp
qed

text \<open>
  So for chunks of at most 1600 bytes each, starting with nothing pending, the claim of
  C1 holds: \<open>L div 1600\<close> frames and \<open>L mod 1600\<close> bytes pending.
\<close>

lemma media_messages_small_chunks:
  assumes run: "media_messages participant session arrivals = (session', effects)"
    and empty: "pending session participant = []"
    and small: "\<forall>audioData. Some audioData \<in> set (media_of arrivals)
                  \<longrightarrow> length audioData \<le> 1600"
  shows "length (emitted (concat effects)) = length (fed (media_of arrivals)) div 1600 \<and>
         length (pending session' participant) = length (fed (media_of arrivals)) mod 1600"
proof -
  have cons: "fed (media_of arrivals) =
               concat (emitted (concat effects)) @ pending session' participant"
    and frames: "\<forall>f\<in>set (emitted (concat effects)). length f = 1600"
    using media_messages_conserves[OF run] empty by simp_all
  have bound: "length (pending session' participant) < 1600"
    using media_messages_pending_bounded[OF run _ small] empty by simp
  have "length (fed (media_of arrivals)) =
        1600 * length (emitted (concat effects)) + length (pending session' participant)"
    using cons length_concat_frames[OF frames] by simp
  thus ?thesis using bound by simp
qed

text \<open>
  C1. The claim is that chunks of total length \<open>L\<close>, split in any way, give
  \<open>L div 1600\<close> frames and leave fewer than 1600 bytes pending. One chunk of 3200 bytes,
  fed to a session with nothing pending, gives one frame, not two, and leaves 1600 bytes
  pending: \<open>processAudioForTranslation\<close> tests the length once where it would have to
  loop.
\<close>

theorem two_frames_in_one_chunk:
  "emitted (snd (processAudioForTranslation example_environment example_streams
                   (Some (replicate 3200 0)) (Some ''phone'') example_session)) =
     [replicate 1600 0] \<and>
   pending (fst (processAudioForTranslation example_environment example_streams
                   (Some (replicate 3200 0)) (Some ''phone'') example_session))
     (Some ''phone'') = replicate 1600 0 \<and>
   length (fed [Some (replicate 3200 (0 :: byte))]) div 1600 = 2"
proof -
  have "pending example_session (Some ''phone'') = []"
    by (simp add: pending_def example_session_def)
  hence "replicate 3200 0 = pending example_session (Some ''phone'') @ replicate 3200 0"
    by simp
  from processAudioForTranslation_step[OF this, of example_environment example_streams]
  show ?thesis by simp
qed

section \<open>Properties of a failed synthesis\<close>

lemma translateAndForwardAudio_session:
  assumes "languages s' = languages s" and "sessionId s' = sessionId s"
  shows "translateAndForwardAudio env streams frame participant s' =
         translateAndForwardAudio env streams frame participant s"
proof -
  have send: "sendAudioToParticipant env streams audio target s' =
              sendAudioToParticipant env streams audio target s" for audio target
    unfolding sendAudioToParticipant_def assms(2) by (rule refl)
  show ?thesis
    unfolding translateAndForwardAudio_def Let_def by (simp only: assms(1) send)
qed

lemma processAudioForTranslation_languages:
  "languages (fst (processAudioForTranslation env streams media participant session)) =
   languages session"
  by (simp add: processAudioForTranslation_def Let_def split: option.splits)

lemma processAudioForTranslation_effects:
  assumes "buffer = pending session participant @ audioData"
  shows "snd (processAudioForTranslation env streams (Some audioData) participant session) =
         (if 1600 \<le> length buffer
          then Pipeline (take 1600 buffer) participant #
               translateAndForwardAudio env streams (take 1600 buffer) participant session
          else [])"
proof -
  have "snd (processAudioForTranslation env streams (Some audioData) participant session) =
         (if 1600 \<le> length buffer
          then Pipeline (take 1600 buffer) participant #
               translateAndForwardAudio env streams (take 1600 buffer) participant
                 (fst (processAudioForTranslation env streams (Some audioData) participant session))
          else [])"
  proof (cases "map_of (audioBuffers session) (sessionId session @ ''-'' @ interpolate participant)")
    case None
    thus ?thesis
      using assms
      by (simp add: processAudioForTranslation_def pending_def Let_def AUDIO_CONFIG_chunkSize_def
                    update_conv')
  next
    case (Some b)
    thus ?thesis
      using assms
      by (simp add: processAudioForTranslation_def pending_def Let_def AUDIO_CONFIG_chunkSize_def
                    update_conv')
  qed
  thus ?thesis
    using translateAndForwardAudio_session[OF processAudioForTranslation_languages
            processAudioForTranslation_sessionId]
    by simp
qed

lemma synthesis_failure_effects:
  assumes "Synthesize text lang \<in> set (translateAndForwardAudio env streams frame participant session)"
    and "tts env text = None"
  shows "\<exists>wav transcription src.
      translateAndForwardAudio env streams frame participant session =
        [Transcribe wav src, Translate transcription src lang, Synthesize text lang]"
  using assms
  by (auto simp: translateAndForwardAudio_def Let_def synthesizeSpeech_def
                 sendAudioToParticipant_def
           split: if_splits sum.splits option.splits)

text \<open>
  C6. Let a media message complete a frame, and let the synthesis call that the pipeline
  makes for this frame fail. Then the effects of the message are the hand-over of the
  frame, the transcription, the translation and the failed synthesis call, and nothing
  else: no audio is encoded, routed or sent, and no socket is closed. The message leaves
  the session with the bytes after the frame pending, and the frame that the next message
  completes is handed to the pipeline and goes through it like any frame of the session,
  as do the messages after it.
\<close>

theorem synthesis_failure_aborts_frame_only:
  assumes called: "Synthesize text lang \<in>
      set (snd (processAudioForTranslation env streams (Some audioData) participant session))"
    and failed: "tts env text = None"
    and left: "session1 =
      fst (processAudioForTranslation env streams (Some audioData) participant session)"
    and next_frame: "1600 \<le> length (pending session1 participant @ audioData')"
  shows "(\<exists>wav transcription src.
            snd (processAudioForTranslation env streams (Some audioData) participant session) =
              [Pipeline (take 1600 (pending session participant @ audioData)) participant,
               Transcribe wav src, Translate transcription src lang, Synthesize text lang]) \<and>
         pending session1 participant = drop 1600 (pending session participant @ audioData) \<and>
         snd (media_messages participant session
                ((env, streams, Some audioData) # (env', streams', Some audioData') # rest)) =
           snd (processAudioForTranslation env streams (Some audioData) participant session) #
           (Pipeline (take 1600 (pending session1 participant @ audioData')) participant #
            translateAndForwardAudio env' streams'
              (take 1600 (pending session1 participant @ audioData')) participant session) #
           snd (media_messages participant
                  (fst (processAudioForTranslation env' streams' (Some audioData') participant
                          session1))
                  rest)"
proof -
  define buffer where "buffer = pending session participant @ audioData"
  have effects: "snd (processAudioForTranslation env streams (Some audioData) participant session) =
         (if 1600 \<le> length buffer
          then Pipeline (take 1600 buffer) participant #
               translateAndForwardAudio env streams (take 1600 buffer) participant session
          else [])"
    by (rule processAudioForTranslation_effects[OF buffer_def])
  have full: "1600 \<le> length buffer"
    using called effects by (auto split: if_splits)
  hence in_pipeline: "Synthesize text lang \<in>
      set (translateAndForwardAudio env streams (take 1600 buffer) participant session)"
    using called effects by simp
  obtain wav transcription src where pipeline:
    "translateAndForwardAudio env streams (take 1600 buffer) participant session =
       [Transcribe wav src, Translate transcription src lang, Synthesize text lang]"
    using synthesis_failure_effects[OF in_pipeline failed] by blast
  have first: "snd (processAudioForTranslation env streams (Some audioData) participant session) =
      [Pipeline (take 1600 buffer) participant,
       Transcribe wav src, Translate transcription src lang, Synthesize text lang]"
    using effects full pipeline by simp
  have pend: "pending session1 participant = drop 1600 buffer"
    using processAudioForTranslation_step[OF buffer_def, of env streams] full left by simp
  have same: "languages session1 = languages session" "sessionId session1 = sessionId session"
    using left by (simp_all add: processAudioForTranslation_languages
                                 processAudioForTranslation_sessionId)
  have second: "snd (processAudioForTranslation env' streams' (Some audioData') participant session1) =
      Pipeline (take 1600 (pending session1 participant @ audioData')) participant #
      translateAndForwardAudio env' streams'
        (take 1600 (pending session1 participant @ audioData')) participant session"
    using processAudioForTranslation_effects[OF refl, of env' streams' audioData' participant session1]
          next_frame translateAndForwardAudio_session[OF same]
    by simp
  have run: "snd (media_messages participant session
                ((env, streams, Some audioData) # (env', streams', Some audioData') # rest)) =
      snd (processAudioForTranslation env streams (Some audioData) participant session) #
      snd (processAudioForTranslation env' streams' (Some audioData') participant session1) #
      snd (media_messages participant
             (fst (processAudioForTranslation env' streams' (Some audioData') participant session1))
             rest)"
    unfolding left by (simp add: Let_def split: prod.splits)
  show ?thesis
    using first pend run unfolding second buffer_def by blast
qed


lemma replicate_update_same: "(replicate m x)[j := x] = replicate m x"
  by (induction m arbitrary: j) (simp_all split: nat.splits)

lemma writeInt16LE_zero:
  "offset + 2 \<le> m \<Longrightarrow> writeInt16LE (replicate m 0) 0 offset = Inr (replicate m 0)"
  by (simp add: writeInt16LE_def ToUint8_def js_shr_def replicate_update_same)

lemma mulawToLinear_zero: "mulawToLinear 0 = 0"
  by code_simp

lemma convertMulawToWav_loop_zeros:
  "convertMulawToWav_loop (replicate n 0) (replicate (n * 2) 0) i = Inr (replicate (n * 2) 0)"
proof (induction "n - i" arbitrary: i)
  case 0
  thus ?case by (subst convertMulawToWav_loop.simps) simp
next
  case (Suc d)
  hence less: "i < n" and step: "d = n - (i + 1)" by simp_all
  have "writeInt16LE (replicate (n * 2) 0) 0 (i * 2) = Inr (replicate (n * 2) 0)"
    using less by (intro writeInt16LE_zero) simp
  thus ?case
    using less Suc.hyps(1)[OF step]
    by (subst convertMulawToWav_loop.simps) (simp add: mulawToLinear_zero)
qed

lemma convertMulawToWav_zeros:
  "convertMulawToWav (replicate n 0) = Inr (replicate (n * 2) 0)"
  by (simp add: convertMulawToWav_def convertMulawToWav_loop_zeros)

theorem synthesis_failure_aborts_frame_only_witness:
  "Synthesize ''hola'' ''en'' \<in>
     set (snd (processAudioForTranslation mute_environment example_streams (Some silence)
                 (Some ''phone'') example_session)) \<and>
   tts mute_environment ''hola'' = None \<and>
   1600 \<le> length (pending (fst (processAudioForTranslation mute_environment example_streams
                                    (Some silence) (Some ''phone'') example_session))
                    (Some ''phone'') @ silence) \<and>
   snd (media_messages (Some ''phone'') example_session
          [(mute_environment, example_streams, Some silence),
           (example_environment, example_streams, Some silence)]) =
     [[Pipeline silence (Some ''phone''), Transcribe (replicate 3200 0) ''es'',
       Translate ''hola'' ''es'' ''en'', Synthesize ''hola'' ''en''],
      [Pipeline silence (Some ''phone''), Transcribe (replicate 3200 0) ''es'',
       Translate ''hola'' ''es'' ''en'', Synthesize ''hola'' ''en'',
       Route [255, 254] ''web'',
       WsSend 3 \<lparr>event = ''media'',
                 streamSid = ''stream-123e4567-e89b-42d3-a456-426614174000-web'',
                 payload = [255, 254]\<rparr>]]"
proof -
  let ?p = "Some ''phone''"
  let ?s1 = "fst (processAudioForTranslation mute_environment example_streams (Some silence)
                    ?p example_session)"
  have t: "trim ''hola'' \<noteq> []"
    by (simp add: trim_def is_ws_def)
  have wav: "convertMulawToWav silence = Inr (replicate 3200 0)"
    using convertMulawToWav_zeros[of 1600] by (simp add: silence_def)
  have len: "length silence = 1600" "take 1600 silence = silence" "drop 1600 silence = []"
    by (simp_all add: silence_def)
  have pend0: "pending example_session ?p = []"
    by (simp add: pending_def example_session_def)
  have muted: "translateAndForwardAudio mute_environment example_streams silence ?p
                 example_session =
               [Transcribe (replicate 3200 0) ''es'', Translate ''hola'' ''es'' ''en'',
                Synthesize ''hola'' ''en'']"
    using wav t
    by (simp add: translateAndForwardAudio_def transcribeAudio_def translateText_def
                  synthesizeSpeech_def mute_environment_def example_environment_def
                  example_session_def Let_def)
  have spoken: "translateAndForwardAudio example_environment example_streams silence ?p
                  example_session =
               [Transcribe (replicate 3200 0) ''es'', Translate ''hola'' ''es'' ''en'',
                Synthesize ''hola'' ''en'', Route [255, 254] ''web'',
                WsSend 3 \<lparr>event = ''media'',
                          streamSid = ''stream-123e4567-e89b-42d3-a456-426614174000-web'',
                          payload = [255, 254]\<rparr>]"
    using wav t example_frame(2)
    by (simp add: translateAndForwardAudio_def transcribeAudio_def translateText_def
                  synthesizeSpeech_def sendAudioToParticipant_def example_environment_def
                  example_session_def example_streams_def Let_def)
  have first: "snd (processAudioForTranslation mute_environment example_streams (Some silence)
                      ?p example_session) =
               Pipeline silence ?p #
               translateAndForwardAudio mute_environment example_streams silence ?p
                 example_session"
    using processAudioForTranslation_effects[of silence example_session ?p silence
            mute_environment example_streams] pend0 len
    by simp
  have called: "Synthesize ''hola'' ''en'' \<in>
     set (snd (processAudioForTranslation mute_environment example_streams (Some silence)
                 ?p example_session))"
    by (simp add: first muted)
  have failed: "tts mute_environment ''hola'' = None"
    by (simp add: mute_environment_def)
  have pend1: "pending ?s1 ?p = []"
    using processAudioForTranslation_step[of silence example_session ?p silence
            mute_environment example_streams] pend0 len
    by simp
  have next_frame: "1600 \<le> length (pending ?s1 ?p @ silence)"
    by (simp add: pend1 len)
  have "snd (media_messages ?p example_session
          [(mute_environment, example_streams, Some silence),
           (example_environment, example_streams, Some silence)]) =
        snd (processAudioForTranslation mute_environment example_streams (Some silence)
               ?p example_session) #
        (Pipeline (take 1600 (pending ?s1 ?p @ silence)) ?p #
         translateAndForwardAudio example_environment example_streams
           (take 1600 (pending ?s1 ?p @ silence)) ?p example_session) #
        snd (media_messages ?p
               (fst (processAudioForTranslation example_environment example_streams
                       (Some silence) ?p ?s1))
               [])"
    using synthesis_failure_aborts_frame_only[OF called failed refl next_frame,
            of example_environment example_streams "[]"]
    by blast
  hence "snd (media_messages ?p example_session
          [(mute_environment, example_streams, Some silence),
           (example_environment, example_streams, Some silence)]) =
     [[Pipeline silence ?p, Transcribe (replicate 3200 0) ''es'',
       Translate ''hola'' ''es'' ''en'', Synthesize ''hola'' ''en''],
      [Pipeline silence ?p, Transcribe (replicate 3200 0) ''es'',
       Translate ''hola'' ''es'' ''en'', Synthesize ''hola'' ''en'',
       Route [255, 254] ''web'',
       WsSend 3 \<lparr>event = ''media'',
                 streamSid = ''stream-123e4567-e89b-42d3-a456-426614174000-web'',
                 payload = [255, 254]\<rparr>]]"
    by (simp only: first muted spoken pend1 len append_Nil media_messages.simps snd_conv)
  thus ?thesis using called failed next_frame by blast
qed

section \<open>Properties of the session state machine\<close>

lemma call_status_found:
  assumes "map_of (activeSessions sys) sid = Some session" and "sid \<noteq> []"
    and "q_session req = Some sid"
  shows "map_of (activeSessions (call_status now req sys)) sid =
           Some ((session\<lparr>lastCallStatus := b_CallStatus req, lastStatusUpdate := Some now\<rparr>)
                   \<lparr>status :=
                      (if b_CallStatus req = Some ''answered'' then ''phone_answered''
                       else if b_CallStatus req = Some ''completed''
                               \<or> b_CallStatus req = Some ''failed'' then ''call_ended''
                       else status session)\<rparr>) \<and>
         timers (call_status now req sys) = timers sys"
  using assms
  by (simp add: call_status_def Let_def truthy_def property_key_def update_conv')

lemma conference_status_join:
  assumes "map_of (activeSessions sys) sid = Some session" and "sid \<noteq> []"
    and "q_session req = Some sid"
    and "b_StatusCallbackEvent req = Some ''participant-join''"
    and "q_participant req = Some who" and "who = ''web'' \<or> who = ''phone''"
  shows "map_of (activeSessions (conference_status now req sys)) sid =
           Some (session\<lparr>status := (if who = ''web'' then ''web_joined''
                                      else ''phone_in_conference'')\<rparr>) \<and>
         timers (conference_status now req sys) = timers sys"
  using assms
  by (auto simp: conference_status_def Let_def truthy_def property_key_def update_conv')

lemma conference_status_start:
  assumes "map_of (activeSessions sys) sid = Some session" and "sid \<noteq> []"
    and "q_session req = Some sid"
    and "b_StatusCallbackEvent req = Some ''conference-start''"
  shows "map_of (activeSessions (conference_status now req sys)) sid =
           Some (session\<lparr>status := ''conference_active''\<rparr>) \<and>
         timers (conference_status now req sys) = timers sys"
  using assms
  by (simp add: conference_status_def Let_def truthy_def property_key_def update_conv')

lemma conference_status_end:
  assumes "map_of (activeSessions sys) sid = Some session" and "sid \<noteq> []"
    and "q_session req = Some sid"
    and "b_StatusCallbackEvent req = Some ''conference-end''"
  shows "map_of (activeSessions (conference_status now req sys)) sid =
           Some (session\<lparr>status := ''conference_ended''\<rparr>) \<and>
         timers (conference_status now req sys) = timers sys @ [(now + 60000, sid)]"
  using assms
  by (simp add: conference_status_def Let_def truthy_def property_key_def update_conv')

lemma fold_delete_keeps_absent:
  "map_of m k = None \<Longrightarrow>
   map_of (fold (\<lambda>(due, sid) m. if due \<le> now then AList.delete sid m else m) ts m) k = None"
  by (induction ts arbitrary: m) (auto simp: delete_conv')

lemma fold_delete_due:
  "(due, k) \<in> set ts \<Longrightarrow> due \<le> now \<Longrightarrow>
   map_of (fold (\<lambda>(due, sid) m. if due \<le> now then AList.delete sid m else m) ts m) k = None"
proof (induction ts arbitrary: m)
  case Nil
  thus ?case by simp
next
  case (Cons t ts)
  show ?case
  proof (cases "t = (due, k)")
    case True
    have "map_of (AList.delete k m) k = None" by (simp add: delete_conv')
    thus ?thesis using True Cons.prems(2) by (simp add: fold_delete_keeps_absent)
  next
    case False
    hence "(due, k) \<in> set ts" using Cons.prems(1) by simp
    thus ?thesis using Cons.IH Cons.prems(2) by simp
  qed
qed

lemma elapse_removes:
  "(due, sid) \<in> set (timers sys) \<Longrightarrow> due \<le> now \<Longrightarrow>
   map_of (activeSessions (elapse now sys)) sid = None"
  by (simp add: elapse_def fold_delete_due)

lemma elapse_keeps:
  assumes "\<forall>t\<in>set (timers sys). snd t = sid \<longrightarrow> now < fst t"
  shows "map_of (activeSessions (elapse now sys)) sid = map_of (activeSessions sys) sid"
proof -
  have "\<forall>t\<in>set ts. snd t = sid \<longrightarrow> now < fst t \<Longrightarrow>
        map_of (fold (\<lambda>(due, sid) m. if due \<le> now then AList.delete sid m else m) ts m) sid
          = map_of m sid" for ts m
  proof (induction ts arbitrary: m)
    case Nil
    show ?case by simp
  next
    case (Cons t ts)
    obtain due k where t: "t = (due, k)" by (cases t)
    have "k = sid \<longrightarrow> now < due" using Cons.prems t by simp
    hence "map_of (if due \<le> now then AList.delete k m else m) sid = map_of m sid"
      by (auto simp: delete_conv')
    thus ?case using Cons.IH[of "if due \<le> now then AList.delete k m else m"] Cons.prems t
      by simp
  qed
  thus ?thesis using assms by (simp add: elapse_def)
qed

text \<open>
  C8. Take a session stored under a non-empty id with status \<open>created\<close> and apply, at
  any times, the call-status event \<open>answered\<close>, then the conference-status events
  \<open>participant-join\<close> of the phone, \<open>conference-start\<close>, \<open>participant-join\<close> of the
  browser and \<open>conference-end\<close>. The status passes through \<open>phone_answered\<close>,
  \<open>phone_in_conference\<close>, \<open>conference_active\<close> and \<open>web_joined\<close> and ends as
  \<open>conference_ended\<close>; the last handler adds a timer due 60000 milliseconds after its
  request, and once that time is reached the session is absent from the registry.
\<close>

theorem conference_lifecycle:
  assumes stored: "map_of (activeSessions sys) sid = Some session" "sid \<noteq> []"
    and created: "status session = ''created''"
    and answered: "q_session r1 = Some sid" "b_CallStatus r1 = Some ''answered''"
    and phone_join: "q_session r2 = Some sid" "q_participant r2 = Some ''phone''"
      "b_StatusCallbackEvent r2 = Some ''participant-join''"
    and started: "q_session r3 = Some sid" "b_StatusCallbackEvent r3 = Some ''conference-start''"
    and web_join: "q_session r4 = Some sid" "q_participant r4 = Some ''web''"
      "b_StatusCallbackEvent r4 = Some ''participant-join''"
    and ended: "q_session r5 = Some sid" "b_StatusCallbackEvent r5 = Some ''conference-end''"
    and s1: "sys1 = call_status t1 r1 sys"
    and s2: "sys2 = conference_status t2 r2 sys1"
    and s3: "sys3 = conference_status t3 r3 sys2"
    and s4: "sys4 = conference_status t4 r4 sys3"
    and s5: "sys5 = conference_status t5 r5 sys4"
    and late: "t5 + 60000 \<le> now"
  shows "map_option status (map_of (activeSessions sys1) sid) = Some ''phone_answered'' \<and>
         map_option status (map_of (activeSessions sys2) sid) = Some ''phone_in_conference'' \<and>
         map_option status (map_of (activeSessions sys3) sid) = Some ''conference_active'' \<and>
         map_option status (map_of (activeSessions sys4) sid) = Some ''web_joined'' \<and>
         map_option status (map_of (activeSessions sys5) sid) = Some ''conference_ended'' \<and>
         timers sys5 = timers sys @ [(t5 + 60000, sid)] \<and>
         map_of (activeSessions (elapse now sys5)) sid = None"
proof -
  obtain x1 where x1: "map_of (activeSessions sys1) sid = Some x1"
      "status x1 = ''phone_answered''" "timers sys1 = timers sys"
    using call_status_found[OF stored answered(1), of t1] answered(2) s1 by simp
  obtain x2 where x2: "map_of (activeSessions sys2) sid = Some x2"
      "status x2 = ''phone_in_conference''" "timers sys2 = timers sys"
    using conference_status_join[OF x1(1) stored(2) phone_join(1,3,2), of t2] x1(3) s2 by simp
  obtain x3 where x3: "map_of (activeSessions sys3) sid = Some x3"
      "status x3 = ''conference_active''" "timers sys3 = timers sys"
    using conference_status_start[OF x2(1) stored(2) started, of t3] x2(3) s3 by simp
  obtain x4 where x4: "map_of (activeSessions sys4) sid = Some x4"
      "status x4 = ''web_joined''" "timers sys4 = timers sys"
    using conference_status_join[OF x3(1) stored(2) web_join(1,3,2), of t4] x3(3) s4 by simp
  obtain x5 where x5: "map_of (activeSessions sys5) sid = Some x5"
      "status x5 = ''conference_ended''" "timers sys5 = timers sys @ [(t5 + 60000, sid)]"
    using conference_status_end[OF x4(1) stored(2) ended, of t5] x4(3) s5 by simp
  have "map_of (activeSessions (elapse now sys5)) sid = None"
    using elapse_removes[of "t5 + 60000" sid sys5 now] x5(3) late by simp
  thus ?thesis using x1 x2 x3 x4 x5 by simp
qed


theorem conference_lifecycle_witness:
  "map_option status
     (map_of (activeSessions example_system) ''123e4567-e89b-42d3-a456-426614174000'') =
     Some ''created'' \<and>
   map_option status
     (map_of (activeSessions ended_system) ''123e4567-e89b-42d3-a456-426614174000'') =
     Some ''conference_ended'' \<and>
   timers ended_system = [(66000, ''123e4567-e89b-42d3-a456-426614174000'')] \<and>
   map_of (activeSessions (elapse 66000 ended_system))
     ''123e4567-e89b-42d3-a456-426614174000'' = None"
proof -
  let ?u = "''123e4567-e89b-42d3-a456-426614174000''"
  have stored: "map_of (activeSessions example_system) ?u = Some example_session" "?u \<noteq> []"
    by (simp_all add: example_system_def)
  have created: "status example_session = ''created''"
    by (simp add: example_session_def)
  have fields:
    "q_session (status_request ?u who cs ev) = Some ?u"
    "q_participant (status_request ?u who cs ev) = who"
    "b_CallStatus (status_request ?u who cs ev) = cs"
    "b_StatusCallbackEvent (status_request ?u who cs ev) = ev" for who cs ev
    by (simp_all add: status_request_def)
  have late: "(6000 :: int) + 60000 \<le> 66000" by simp
  have timers0: "timers example_system = []"
    by (simp add: example_system_def)
  show ?thesis
    using conference_lifecycle[OF stored created fields(1) fields(3) fields(1) fields(2)
            fields(4) fields(1) fields(4) fields(1) fields(2) fields(4) fields(1) fields(4)
            refl refl refl refl ended_system_def late]
          stored(1) created timers0
    by simp
qed

section \<open>Properties of the incoming-call handler\<close>

lemma sort_key_head:
  assumes "sort_key f xs = y # ys"
  shows "y \<in> set xs \<and> (\<forall>x\<in>set xs. f y \<le> f x)"
proof -
  have "set (y # ys) = set xs"
    using assms set_sort[of f xs] by simp
  moreover have "sorted (map f (y # ys))"
    using assms sorted_sort_key[of f xs] by simp
  ultimately show ?thesis by auto
qed

lemma sort_key_Nil: "sort_key f xs = [] \<Longrightarrow> xs = []"
  using length_sort[of f xs] by simp

text \<open>
  C7, as amended. Let the session id of an inbound call not resolve: it is absent or
  empty, or the registry has no session under it. If the call is of type \<open>web\<close>, carries
  no session id and comes from a \<open>client:\<close> address, the handler looks for sessions in
  status \<open>phone_answered\<close> or \<open>phone_calling\<close>. With one or more, it attaches the caller
  to the most recently created of them: the answer connects a media stream for that
  session and the participant \<open>web\<close> and joins the caller to the session's conference,
  and the session gets the caller as its \<open>web\<close> participant and the status
  \<open>web_joining\<close>. With none it says that no session was found and hangs up. Every
  other such call gets the spoken apology and the hangup. Whenever the answer is a
  hangup, the system is unchanged.
\<close>

theorem unresolved_incoming_call:
  assumes unresolved:
    "\<not> truthy (q_session req) \<or>
     map_of (activeSessions sys) (property_key (q_session req)) = None"
  shows
    "if q_type req = Some ''web'' \<and> \<not> truthy (q_session req) \<and> truthy (b_From req) \<and>
        startsWith (property_key (b_From req)) ''client:''
     then
       (if \<exists>key s. (key, s) \<in> set (activeSessions sys) \<and>
             (status s = ''phone_answered'' \<or> status s = ''phone_calling'')
        then \<exists>key recent.
               (key, recent) \<in> set (activeSessions sys) \<and>
               (status recent = ''phone_answered'' \<or> status recent = ''phone_calling'') \<and>
               (\<forall>k s. (k, s) \<in> set (activeSessions sys) \<and>
                      (status s = ''phone_answered'' \<or> status s = ''phone_calling'')
                      \<longrightarrow> createdAt s \<le> createdAt recent) \<and>
               fst (handleIncomingCall now req sys) =
                 [ConnectStream
                    (''wss://'' @ host req @ ''/media-stream?session='' @ sessionId recent
                       @ ''&participant=web'')
                    ''both_tracks'',
                  DialConference (conferenceId recent)
                    \<lparr>startConferenceOnEnter = True, endConferenceOnExit = False, waitUrl = [],
                     maxParticipants = None, recordConference = None,
                     statusCallback =
                       ''https://'' @ host req @ ''/conference-status?session=''
                         @ sessionId recent @ ''&participant=web'',
                     statusCallbackEvent = [''start'', ''end'', ''join'', ''leave''],
                     statusCallbackMethod = ''POST''\<rparr>] \<and>
               snd (handleIncomingCall now req sys) =
                 sys\<lparr>activeSessions :=
                       AList.update key
                         (recent\<lparr>participants :=
                                   AList.update ''web''
                                     \<lparr>p_callSid = b_CallSid req, p_from = b_From req,
                                      p_to = b_To req, joinedAt = now, leftAt = None\<rparr>
                                     (participants recent),
                                 status := ''web_joining''\<rparr>)
                         (activeSessions sys)\<rparr>
        else handleIncomingCall now req sys =
               ([Say ''No active translation session found. Please start a new session.'',
                 Hangup], sys))
     else handleIncomingCall now req sys =
            ([Say ''Sorry, this session is not available. Please try again.'', Hangup], sys)"
proof (cases "q_type req = Some ''web'' \<and> \<not> truthy (q_session req) \<and> truthy (b_From req) \<and>
        startsWith (property_key (b_From req)) ''client:''")
  case False
  have kind: "\<not> ((if truthy (q_type req) then property_key (q_type req) else ''phone'') = ''web'' \<and>
            \<not> truthy (q_session req) \<and> truthy (b_From req) \<and>
            startsWith (property_key (b_From req)) ''client:'')"
    using False by (auto simp: truthy_def property_key_def split: option.splits if_splits)
  have none: "(if truthy (q_session req)
               then map_of (activeSessions sys) (property_key (q_session req)) else None) = None"
    using unresolved by auto
  have "handleIncomingCall now req sys =
          ([Say ''Sorry, this session is not available. Please try again.'', Hangup], sys)"
    unfolding handleIncomingCall_def Let_def
    by (simp only: kind none if_False option.case)
  thus ?thesis using False by (simp only: if_False)
next
  case True
  hence kind: "(if truthy (q_type req) then property_key (q_type req) else ''phone'') = ''web'' \<and>
            \<not> truthy (q_session req) \<and> truthy (b_From req) \<and>
            startsWith (property_key (b_From req)) ''client:''"
    by (auto simp: truthy_def property_key_def)
  define candidates where "candidates =
    filter (\<lambda>(k, s). status s = ''phone_answered'' \<or> status s = ''phone_calling'')
      (activeSessions sys)"
  have unfold: "handleIncomingCall now req sys =
    (case sort_key (\<lambda>(k, s). - createdAt s) candidates of
       (key, recentSession) # _ \<Rightarrow> handleWebCallWithSession now req sys key recentSession
     | [] \<Rightarrow> ([Say ''No active translation session found. Please start a new session.'',
               Hangup], sys))"
    unfolding handleIncomingCall_def Let_def candidates_def using kind by simp
  show ?thesis
  proof (cases "sort_key (\<lambda>(k, s). - createdAt s) candidates")
    case Nil
    hence "candidates = []" by (rule sort_key_Nil)
    hence no: "\<not> (\<exists>key s. (key, s) \<in> set (activeSessions sys) \<and>
             (status s = ''phone_answered'' \<or> status s = ''phone_calling''))"
      unfolding candidates_def by (auto simp: filter_empty_conv)
    have "handleIncomingCall now req sys =
            ([Say ''No active translation session found. Please start a new session.'',
              Hangup], sys)"
      using unfold Nil by simp
    thus ?thesis by (simp only: True no if_True if_False simp_thms)
  next
    case (Cons y ys)
    obtain key recent where y: "y = (key, recent)" by (cases y)
    have head: "(key, recent) \<in> set candidates"
      "\<forall>x\<in>set candidates. (\<lambda>(k, s). - createdAt s) (key, recent) \<le> (\<lambda>(k, s). - createdAt s) x"
      using sort_key_head[OF Cons] y by simp_all
    have member: "(key, recent) \<in> set (activeSessions sys)"
      "status recent = ''phone_answered'' \<or> status recent = ''phone_calling''"
      using head(1) unfolding candidates_def by auto
    have latest: "\<forall>k s. (k, s) \<in> set (activeSessions sys) \<and>
                      (status s = ''phone_answered'' \<or> status s = ''phone_calling'')
                      \<longrightarrow> createdAt s \<le> createdAt recent"
    proof (intro allI impI)
      fix k s
      assume "(k, s) \<in> set (activeSessions sys) \<and>
              (status s = ''phone_answered'' \<or> status s = ''phone_calling'')"
      hence "(k, s) \<in> set candidates" unfolding candidates_def by simp
      thus "createdAt s \<le> createdAt recent" using head(2) by auto
    qed
    have joined: "handleIncomingCall now req sys = handleWebCallWithSession now req sys key recent"
      using unfold Cons y by simp
    have answer: "fst (handleIncomingCall now req sys) =
                 [ConnectStream
                    (''wss://'' @ host req @ ''/media-stream?session='' @ sessionId recent
                       @ ''&participant=web'')
                    ''both_tracks'',
                  DialConference (conferenceId recent)
                    \<lparr>startConferenceOnEnter = True, endConferenceOnExit = False, waitUrl = [],
                     maxParticipants = None, recordConference = None,
                     statusCallback =
                       ''https://'' @ host req @ ''/conference-status?session=''
                         @ sessionId recent @ ''&participant=web'',
                     statusCallbackEvent = [''start'', ''end'', ''join'', ''leave''],
                     statusCallbackMethod = ''POST''\<rparr>]"
      unfolding joined by (simp add: handleWebCallWithSession_def Let_def)
    have left: "snd (handleIncomingCall now req sys) =
                 sys\<lparr>activeSessions :=
                       AList.update key
                         (recent\<lparr>participants :=
                                   AList.update ''web''
                                     \<lparr>p_callSid = b_CallSid req, p_from = b_From req,
                                      p_to = b_To req, joinedAt = now, leftAt = None\<rparr>
                                     (participants recent),
                                 status := ''web_joining''\<rparr>)
                         (activeSessions sys)\<rparr>"
      unfolding joined by (simp add: handleWebCallWithSession_def Let_def)
    have attached: "\<exists>key recent.
               (key, recent) \<in> set (activeSessions sys) \<and>
               (status recent = ''phone_answered'' \<or> status recent = ''phone_calling'') \<and>
               (\<forall>k s. (k, s) \<in> set (activeSessions sys) \<and>
                      (status s = ''phone_answered'' \<or> status s = ''phone_calling'')
                      \<longrightarrow> createdAt s \<le> createdAt recent) \<and>
               fst (handleIncomingCall now req sys) =
                 [ConnectStream
                    (''wss://'' @ host req @ ''/media-stream?session='' @ sessionId recent
                       @ ''&participant=web'')
                    ''both_tracks'',
                  DialConference (conferenceId recent)
                    \<lparr>startConferenceOnEnter = True, endConferenceOnExit = False, waitUrl = [],
                     maxParticipants = None, recordConference = None,
                     statusCallback =
                       ''https://'' @ host req @ ''/conference-status?session=''
                         @ sessionId recent @ ''&participant=web'',
                     statusCallbackEvent = [''start'', ''end'', ''join'', ''leave''],
                     statusCallbackMethod = ''POST''\<rparr>] \<and>
               snd (handleIncomingCall now req sys) =
                 sys\<lparr>activeSessions :=
                       AList.update key
                         (recent\<lparr>participants :=
                                   AList.update ''web''
                                     \<lparr>p_callSid = b_CallSid req, p_from = b_From req,
                                      p_to = b_To req, joinedAt = now, leftAt = None\<rparr>
                                     (participants recent),
                                 status := ''web_joining''\<rparr>)
                         (activeSessions sys)\<rparr>"
      using member latest answer left by blast
    have some: "\<exists>key s. (key, s) \<in> set (activeSessions sys) \<and>
             (status s = ''phone_answered'' \<or> status s = ''phone_calling'')"
      using member by blast
    show ?thesis by (simp only: True some attached if_True simp_thms)
  qed
qed


theorem unresolved_incoming_call_witness:
  "map_of (activeSessions example_system) (property_key (q_session unknown_session_request)) = None \<and>
   handleIncomingCall 2000 unknown_session_request example_system =
     ([Say ''Sorry, this session is not available. Please try again.'', Hangup], example_system) \<and>
   \<not> truthy (q_session web_client_request) \<and>
   fst (handleIncomingCall 3000 web_client_request two_calls_system) =
     [ConnectStream
        (''wss://relay.example/media-stream?session=9b2c1d3e-4f5a-4b6c-8d7e-0f1a2b3c4d5e''
           @ ''&participant=web'')
        ''both_tracks'',
      DialConference ''translation-9b2c1d3e-4f5a-4b6c-8d7e-0f1a2b3c4d5e''
        \<lparr>startConferenceOnEnter = True, endConferenceOnExit = False, waitUrl = [],
         maxParticipants = None, recordConference = None,
         statusCallback =
           ''https://relay.example/conference-status''
             @ ''?session=9b2c1d3e-4f5a-4b6c-8d7e-0f1a2b3c4d5e&participant=web'',
         statusCallbackEvent = [''start'', ''end'', ''join'', ''leave''],
         statusCallbackMethod = ''POST''\<rparr>] \<and>
   activeSessions (snd (handleIncomingCall 3000 web_client_request two_calls_system)) =
     [(''123e4567-e89b-42d3-a456-426614174000'', example_session\<lparr>status := ''phone_calling''\<rparr>),
      (''9b2c1d3e-4f5a-4b6c-8d7e-0f1a2b3c4d5e'',
       second_session
         \<lparr>participants :=
            [(''web'', \<lparr>p_callSid = Some ''CA1'', p_from = Some ''client:alice'', p_to = None,
                        joinedAt = 3000, leftAt = None\<rparr>)],
          status := ''web_joining''\<rparr>)]"
proof -
  let ?a = "example_session\<lparr>status := ''phone_calling''\<rparr>"
  let ?b = "second_session\<lparr>status := ''phone_answered''\<rparr>"
  have absent: "map_of (activeSessions example_system)
                  (property_key (q_session unknown_session_request)) = None"
    by (simp add: example_system_def unknown_session_request_def property_key_def)
  have kind: "\<not> (q_type unknown_session_request = Some ''web'' \<and>
                 \<not> truthy (q_session unknown_session_request) \<and>
                 truthy (b_From unknown_session_request) \<and>
                 startsWith (property_key (b_From unknown_session_request)) ''client:'')"
    by (simp add: unknown_session_request_def)
  have apology: "handleIncomingCall 2000 unknown_session_request example_system =
     ([Say ''Sorry, this session is not available. Please try again.'', Hangup], example_system)"
    using unresolved_incoming_call[of unknown_session_request example_system 2000] absent kind
    by (simp only: if_False simp_thms)
  have no_id: "\<not> truthy (q_session web_client_request)"
    by (simp add: web_client_request_def truthy_def)
  have web: "q_type web_client_request = Some ''web'' \<and>
             \<not> truthy (q_session web_client_request) \<and>
             truthy (b_From web_client_request) \<and>
             startsWith (property_key (b_From web_client_request)) ''client:''"
    by (simp add: web_client_request_def truthy_def property_key_def startsWith_def)
  have sessions: "activeSessions two_calls_system =
      [(''123e4567-e89b-42d3-a456-426614174000'', ?a),
       (''9b2c1d3e-4f5a-4b6c-8d7e-0f1a2b3c4d5e'', ?b)]"
    by (simp add: two_calls_system_def)
  have b: "(''9b2c1d3e-4f5a-4b6c-8d7e-0f1a2b3c4d5e'', ?b) \<in> set (activeSessions two_calls_system)"
      "status ?b = ''phone_answered''" "createdAt ?b = 2000" "createdAt ?a = 1000"
    by (simp_all add: sessions second_session_def example_session_def)
  have some: "\<exists>key s. (key, s) \<in> set (activeSessions two_calls_system) \<and>
                (status s = ''phone_answered'' \<or> status s = ''phone_calling'')"
    using b(1,2) by blast
  have "\<exists>key recent.
          (key, recent) \<in> set (activeSessions two_calls_system) \<and>
          (status recent = ''phone_answered'' \<or> status recent = ''phone_calling'') \<and>
          (\<forall>k s. (k, s) \<in> set (activeSessions two_calls_system) \<and>
                 (status s = ''phone_answered'' \<or> status s = ''phone_calling'')
                 \<longrightarrow> createdAt s \<le> createdAt recent) \<and>
          fst (handleIncomingCall 3000 web_client_request two_calls_system) =
            [ConnectStream
               (''wss://'' @ host web_client_request @ ''/media-stream?session=''
                  @ sessionId recent @ ''&participant=web'')
               ''both_tracks'',
             DialConference (conferenceId recent)
               \<lparr>startConferenceOnEnter = True, endConferenceOnExit = False, waitUrl = [],
                maxParticipants = None, recordConference = None,
                statusCallback =
                  ''https://'' @ host web_client_request @ ''/conference-status?session=''
                    @ sessionId recent @ ''&participant=web'',
                statusCallbackEvent = [''start'', ''end'', ''join'', ''leave''],
                statusCallbackMethod = ''POST''\<rparr>] \<and>
          snd (handleIncomingCall 3000 web_client_request two_calls_system) =
            two_calls_system\<lparr>activeSessions :=
                  AList.update key
                    (recent\<lparr>participants :=
                              AList.update ''web''
                                \<lparr>p_callSid = b_CallSid web_client_request,
                                 p_from = b_From web_client_request,
                                 p_to = b_To web_client_request, joinedAt = 3000,
                                 leftAt = None\<rparr>
                                (participants recent),
                            status := ''web_joining''\<rparr>)
                    (activeSessions two_calls_system)\<rparr>"
    using unresolved_incoming_call[of web_client_request two_calls_system 3000] no_id
    by (simp only: web some if_True simp_thms)
  then obtain key recent where
    member: "(key, recent) \<in> set (activeSessions two_calls_system)"
    and latest: "\<forall>k s. (k, s) \<in> set (activeSessions two_calls_system) \<and>
                 (status s = ''phone_answered'' \<or> status s = ''phone_calling'')
                 \<longrightarrow> createdAt s \<le> createdAt recent"
    and answer: "fst (handleIncomingCall 3000 web_client_request two_calls_system) =
            [ConnectStream
               (''wss://'' @ host web_client_request @ ''/media-stream?session=''
                  @ sessionId recent @ ''&participant=web'')
               ''both_tracks'',
             DialConference (conferenceId recent)
               \<lparr>startConferenceOnEnter = True, endConferenceOnExit = False, waitUrl = [],
                maxParticipants = None, recordConference = None,
                statusCallback =
                  ''https://'' @ host web_client_request @ ''/conference-status?session=''
                    @ sessionId recent @ ''&participant=web'',
                statusCallbackEvent = [''start'', ''end'', ''join'', ''leave''],
                statusCallbackMethod = ''POST''\<rparr>]"
    and left: "snd (handleIncomingCall 3000 web_client_request two_calls_system) =
            two_calls_system\<lparr>activeSessions :=
                  AList.update key
                    (recent\<lparr>participants :=
                              AList.update ''web''
                                \<lparr>p_callSid = b_CallSid web_client_request,
                                 p_from = b_From web_client_request,
                                 p_to = b_To web_client_request, joinedAt = 3000,
                                 leftAt = None\<rparr>
                                (participants recent),
                            status := ''web_joining''\<rparr>)
                    (activeSessions two_calls_system)\<rparr>"
    by blast
  have "2000 \<le> createdAt recent"
    using latest b(1,2,3) by force
  hence chosen: "key = ''9b2c1d3e-4f5a-4b6c-8d7e-0f1a2b3c4d5e''" "recent = ?b"
    using member b(4) unfolding sessions by auto
  have answer': "fst (handleIncomingCall 3000 web_client_request two_calls_system) =
     [ConnectStream
        (''wss://relay.example/media-stream?session=9b2c1d3e-4f5a-4b6c-8d7e-0f1a2b3c4d5e''
           @ ''&participant=web'')
        ''both_tracks'',
      DialConference ''translation-9b2c1d3e-4f5a-4b6c-8d7e-0f1a2b3c4d5e''
        \<lparr>startConferenceOnEnter = True, endConferenceOnExit = False, waitUrl = [],
         maxParticipants = None, recordConference = None,
         statusCallback =
           ''https://relay.example/conference-status''
             @ ''?session=9b2c1d3e-4f5a-4b6c-8d7e-0f1a2b3c4d5e&participant=web'',
         statusCallbackEvent = [''start'', ''end'', ''join'', ''leave''],
         statusCallbackMethod = ''POST''\<rparr>]"
    unfolding answer chosen by (simp add: web_client_request_def second_session_def)
  have left': "activeSessions (snd (handleIncomingCall 3000 web_client_request two_calls_system)) =
     [(''123e4567-e89b-42d3-a456-426614174000'', ?a),
      (''9b2c1d3e-4f5a-4b6c-8d7e-0f1a2b3c4d5e'',
       second_session
         \<lparr>participants :=
            [(''web'', \<lparr>p_callSid = Some ''CA1'', p_from = Some ''client:alice'', p_to = None,
                        joinedAt = 3000, leftAt = None\<rparr>)],
          status := ''web_joining''\<rparr>)]"
    unfolding left chosen sessions
    by (simp add: web_client_request_def second_session_def)
  show ?thesis
    using absent apology no_id answer' left' by (intro conjI)
qed

text \<open>
  C7 as stated fails for a browser call without a session id while a session is being
  called: the handler connects the caller's stream to that session, joins the caller to
  its conference and records the caller as its \<open>web\<close> participant.
\<close>

theorem web_caller_attached_counterexample:
  "\<not> truthy (q_session web_client_request) \<and>
   fst (handleIncomingCall 2000 web_client_request calling_system) =
     [ConnectStream
        (''wss://relay.example/media-stream?session=123e4567-e89b-42d3-a456-426614174000''
           @ ''&participant=web'')
        ''both_tracks'',
      DialConference ''translation-123e4567-e89b-42d3-a456-426614174000''
        \<lparr>startConferenceOnEnter = True, endConferenceOnExit = False, waitUrl = [],
         maxParticipants = None, recordConference = None,
         statusCallback =
           ''https://relay.example/conference-status''
             @ ''?session=123e4567-e89b-42d3-a456-426614174000&participant=web'',
         statusCallbackEvent = [''start'', ''end'', ''join'', ''leave''],
         statusCallbackMethod = ''POST''\<rparr>] \<and>
   map_option status
     (map_of (activeSessions (snd (handleIncomingCall 2000 web_client_request calling_system)))
        ''123e4567-e89b-42d3-a456-426614174000'') = Some ''web_joining'' \<and>
   map_option participants
     (map_of (activeSessions (snd (handleIncomingCall 2000 web_client_request calling_system)))
        ''123e4567-e89b-42d3-a456-426614174000'') =
     Some [(''web'', \<lparr>p_callSid = Some ''CA1'', p_from = Some ''client:alice'', p_to = None,
                      joinedAt = 2000, leftAt = None\<rparr>)]"
  by (simp add: handleIncomingCall_def handleWebCallWithSession_def Let_def truthy_def
                property_key_def startsWith_def web_client_request_def calling_system_def
                example_session_def)

section \<open>Properties of the routing\<close>

lemma set_update:
  "(k', v') \<in> set (AList.update k v al) \<Longrightarrow> (k', v') = (k, v) \<or> (k', v') \<in> set al"
  by (induction al) (auto split: if_splits)

lemma set_delete: "(k', v') \<in> set (AList.delete k al) \<Longrightarrow> (k', v') \<in> set al"
  by (simp add: AList.delete_eq)

lemma wf_sessions_iff:
  "wf_sessions al \<longleftrightarrow> (\<forall>k s. (k, s) \<in> set al \<longrightarrow> is_uuid k \<and> sessionId s = k)"
  by (auto simp: wf_sessions_def)

lemma wf_streams_iff:
  "wf_streams al \<longleftrightarrow>
     (\<forall>k st. (k, st) \<in> set al \<longrightarrow>
        is_uuid (stream_sessionId st) \<and>
        k = stream_sessionId st @ ''-'' @ interpolate (stream_participant st))"
  by (auto simp: wf_streams_def)

lemma wf_sessions_update:
  "wf_sessions al \<Longrightarrow> is_uuid k \<Longrightarrow> sessionId v = k \<Longrightarrow> wf_sessions (AList.update k v al)"
  unfolding wf_sessions_iff
proof (intro allI impI)
  fix k' s
  assume wf: "\<forall>k s. (k, s) \<in> set al \<longrightarrow> is_uuid k \<and> sessionId s = k"
    and new: "is_uuid k" "sessionId v = k"
    and "(k', s) \<in> set (AList.update k v al)"
  hence "(k', s) = (k, v) \<or> (k', s) \<in> set al" by (rule_tac set_update)
  thus "is_uuid k' \<and> sessionId s = k'" using wf new by blast
qed

lemma wf_sessions_delete: "wf_sessions al \<Longrightarrow> wf_sessions (AList.delete k al)"
  unfolding wf_sessions_iff by (blast dest: set_delete)

lemma wf_sessions_member:
  "wf_sessions al \<Longrightarrow> (k, s) \<in> set al \<Longrightarrow> is_uuid k \<and> sessionId s = k"
  unfolding wf_sessions_iff by blast

lemma wf_sessions_map_of:
  "wf_sessions al \<Longrightarrow> map_of al k = Some s \<Longrightarrow> is_uuid k \<and> sessionId s = k"
  by (rule wf_sessions_member[of al k s]) (simp_all add: map_of_SomeD)

lemma wf_sessions_change:
  "wf_sessions al \<Longrightarrow> (k, s) \<in> set al \<Longrightarrow> sessionId s' = sessionId s \<Longrightarrow>
   wf_sessions (AList.update k s' al)"
  using wf_sessions_member[of al k s] by (simp add: wf_sessions_update)

lemma wf_sessions_change_found:
  "wf_sessions al \<Longrightarrow> map_of al k = Some s \<Longrightarrow> sessionId s' = sessionId s \<Longrightarrow>
   wf_sessions (AList.update k s' al)"
  by (rule wf_sessions_change[of al k s]) (simp_all add: map_of_SomeD)

lemma create_session_wf:
  assumes "wf_sessions (activeSessions sys)" and "is_uuid uuid"
  shows "wf_sessions (activeSessions (snd (create_session now uuid pn pl wl call sys))) \<and>
         activeStreams (snd (create_session now uuid pn pl wl call sys)) = activeStreams sys"
  using assms
  by (auto simp: create_session_def Let_def intro!: wf_sessions_update
           split: option.splits js_value.splits)

lemma changes_one_wf:
  "changes_one sys sys' \<Longrightarrow> wf_sessions (activeSessions sys) \<Longrightarrow>
   wf_sessions (activeSessions sys')"
proof -
  assume c: "changes_one sys sys'" and wf: "wf_sessions (activeSessions sys)"
  from c consider "activeSessions sys' = activeSessions sys"
    | key s s' where "(key, s) \<in> set (activeSessions sys)" "sessionId s' = sessionId s"
        "activeSessions sys' = AList.update key s' (activeSessions sys)"
    unfolding changes_one_def by blast
  thus ?thesis
  proof cases
    case 1
    thus ?thesis using wf by simp
  next
    case 2
    thus ?thesis using wf_sessions_change[OF wf 2(1,2)] by simp
  qed
qed

lemma changes_one_refl: "changes_one sys sys"
  by (simp add: changes_one_def)

lemma changes_one_update:
  "(key, s) \<in> set (activeSessions sys) \<Longrightarrow> sessionId s' = sessionId s \<Longrightarrow>
   activeStreams sys' = activeStreams sys \<Longrightarrow>
   activeSessions sys' = AList.update key s' (activeSessions sys) \<Longrightarrow>
   changes_one sys sys'"
  unfolding changes_one_def by blast

lemma handleWebCallWithSession_changes:
  "(key, session) \<in> set (activeSessions sys) \<Longrightarrow>
   changes_one sys (snd (handleWebCallWithSession now req sys key session))"
  by (rule changes_one_update[of key session]) (simp_all add: handleWebCallWithSession_def Let_def)

lemma handleIncomingCall_changes:
  "changes_one sys (snd (handleIncomingCall now req sys))"
proof -
  let ?web = "(if truthy (q_type req) then property_key (q_type req) else ''phone'') = ''web'' \<and>
            \<not> truthy (q_session req) \<and> truthy (b_From req) \<and>
            startsWith (property_key (b_From req)) ''client:''"
  let ?sorted = "sort_key (\<lambda>(k, s). - createdAt s)
                   (filter (\<lambda>(k, s). status s = ''phone_answered'' \<or> status s = ''phone_calling'')
                      (activeSessions sys))"
  let ?found = "if truthy (q_session req)
                then map_of (activeSessions sys) (property_key (q_session req)) else None"
  show ?thesis
  proof (cases ?web)
    case True
    show ?thesis
    proof (cases ?sorted)
      case Nil
      have "snd (handleIncomingCall now req sys) = sys"
        unfolding handleIncomingCall_def Let_def using True Nil by simp
      thus ?thesis by (simp add: changes_one_refl)
    next
      case (Cons y ys)
      obtain key recent where y: "y = (key, recent)" by (cases y)
      have "(key, recent) \<in> set ?sorted" using Cons y by simp
      hence member: "(key, recent) \<in> set (activeSessions sys)" by simp
      have "handleIncomingCall now req sys = handleWebCallWithSession now req sys key recent"
        unfolding handleIncomingCall_def Let_def using True Cons y by simp
      thus ?thesis using handleWebCallWithSession_changes[OF member] by simp
    qed
  next
    case False
    show ?thesis
    proof (cases ?found)
      case None
      have "snd (handleIncomingCall now req sys) = sys"
        unfolding handleIncomingCall_def Let_def by (simp only: False None if_False option.case snd_conv)
      thus ?thesis by (simp add: changes_one_refl)
    next
      case (Some session)
      hence member: "(property_key (q_session req), session) \<in> set (activeSessions sys)"
        by (auto dest: map_of_SomeD split: if_splits)
      let ?kind = "if truthy (q_type req) then property_key (q_type req) else ''phone''"
      let ?s' = "session\<lparr>participants :=
                   AList.update ?kind
                     \<lparr>p_callSid = b_CallSid req, p_from = b_From req,
                      p_to = b_To req, joinedAt = now, leftAt = None\<rparr>
                     (participants session)\<rparr>"
      have "snd (handleIncomingCall now req sys) =
              sys\<lparr>activeSessions :=
                    AList.update (property_key (q_session req)) ?s' (activeSessions sys)\<rparr>"
        unfolding handleIncomingCall_def Let_def
        by (simp only: False Some if_False option.case snd_conv)
      thus ?thesis
        by (intro changes_one_update[OF member, of ?s']) simp_all
    qed
  qed
qed


lemma handleWebCall_changes:
  "changes_one sys (snd (handleWebCall now req sys))"
proof (cases "filter (\<lambda>(k, s). status s = ''phone_answered'' \<or> status s = ''phone_calling'')
                (activeSessions sys)")
  case Nil
  thus ?thesis by (simp add: handleWebCall_def changes_one_refl)
next
  case (Cons y ys)
  obtain key available where y: "y = (key, available)" by (cases y)
  have "(key, available) \<in> set (filter (\<lambda>(k, s). status s = ''phone_answered'' \<or>
            status s = ''phone_calling'') (activeSessions sys))"
    using Cons y by simp
  hence member: "(key, available) \<in> set (activeSessions sys)" by simp
  show ?thesis
    by (rule changes_one_update[OF member,
          of "available\<lparr>status := ''web_joining'',
               participants :=
                 AList.update ''web''
                   \<lparr>p_callSid = b_CallSid req, p_from = b_From req, p_to = None,
                    joinedAt = now, leftAt = None\<rparr>
                   (participants available)\<rparr>"])
       (simp_all add: handleWebCall_def Let_def Cons y)
qed

lemma call_status_changes:
  "changes_one sys (call_status now req sys)"
proof (cases "if truthy (q_session req)
              then map_of (activeSessions sys) (property_key (q_session req)) else None")
  case None
  thus ?thesis by (simp add: call_status_def Let_def changes_one_refl)
next
  case (Some session)
  hence member: "(property_key (q_session req), session) \<in> set (activeSessions sys)"
    by (auto dest: map_of_SomeD split: if_splits)
  let ?s1 = "session\<lparr>lastCallStatus := b_CallStatus req, lastStatusUpdate := Some now\<rparr>"
  let ?s' = "if b_CallStatus req = Some ''answered'' then ?s1\<lparr>status := ''phone_answered''\<rparr>
             else if b_CallStatus req = Some ''completed'' \<or> b_CallStatus req = Some ''failed''
             then ?s1\<lparr>status := ''call_ended''\<rparr>
             else ?s1"
  have "call_status now req sys =
          sys\<lparr>activeSessions :=
                AList.update (property_key (q_session req)) ?s' (activeSessions sys)\<rparr>"
    unfolding call_status_def Let_def by (simp only: Some option.case)
  thus ?thesis
    by (intro changes_one_update[OF member, of ?s']) simp_all
qed

lemma conference_status_changes:
  "changes_one sys (conference_status now req sys)"
proof (cases "if truthy (q_session req)
              then map_of (activeSessions sys) (property_key (q_session req)) else None")
  case None
  thus ?thesis by (simp add: conference_status_def Let_def changes_one_refl)
next
  case (Some session)
  hence member: "(property_key (q_session req), session) \<in> set (activeSessions sys)"
    by (auto dest: map_of_SomeD split: if_splits)
  have store: "changes_one sys
      ((sys\<lparr>activeSessions :=
             AList.update (property_key (q_session req)) s' (activeSessions sys)\<rparr>)
         \<lparr>timers := ts\<rparr>)"
    if "sessionId s' = sessionId session" for s' ts
    by (rule changes_one_update[OF member that]) simp_all
  have store': "changes_one sys
      (sys\<lparr>activeSessions :=
             AList.update (property_key (q_session req)) s' (activeSessions sys)\<rparr>)"
    if "sessionId s' = sessionId session" for s'
    by (rule changes_one_update[OF member that]) simp_all
  show ?thesis
    unfolding conference_status_def Let_def
    by (simp only: Some option.case)
       (auto intro!: store store' changes_one_refl split: option.splits)
qed

lemma elapse_wf:
  "wf_sessions (activeSessions sys) \<Longrightarrow>
   wf_sessions (activeSessions (elapse now sys)) \<and>
   activeStreams (elapse now sys) = activeStreams sys"
proof -
  have "wf_sessions m \<Longrightarrow>
        wf_sessions (fold (\<lambda>(due, sid) m. if due \<le> now then AList.delete sid m else m) ts m)"
    for ts m
    by (induction ts arbitrary: m) (auto simp: wf_sessions_delete)
  thus "wf_sessions (activeSessions sys) \<Longrightarrow> ?thesis"
    by (simp add: elapse_def)
qed

lemma handleMediaStream_wf:
  assumes "wf_sessions (activeSessions sys)" and "wf_streams (activeStreams sys)"
  shows "activeSessions (snd (handleMediaStream socket sid who sys)) = activeSessions sys \<and>
         wf_streams (activeStreams (snd (handleMediaStream socket sid who sys)))"
proof (cases "case sid of None \<Rightarrow> None | Some k \<Rightarrow> map_of (activeSessions sys) k")
  case None
  thus ?thesis using assms(2) by (simp add: handleMediaStream_def)
next
  case (Some session)
  then obtain k where k: "sid = Some k" "map_of (activeSessions sys) k = Some session"
    by (cases sid) simp_all
  have uuid: "is_uuid k"
    using wf_sessions_map_of[OF assms(1) k(2)] by simp
  have "wf_streams (AList.update (k @ ''-'' @ interpolate who)
          \<lparr>ws = socket, stream_participant = who, stream_sessionId = k\<rparr> (activeStreams sys))"
    unfolding wf_streams_iff
  proof (intro allI impI)
    fix key st
    assume "(key, st) \<in> set (AList.update (k @ ''-'' @ interpolate who)
          \<lparr>ws = socket, stream_participant = who, stream_sessionId = k\<rparr> (activeStreams sys))"
    hence "(key, st) = (k @ ''-'' @ interpolate who,
                        \<lparr>ws = socket, stream_participant = who, stream_sessionId = k\<rparr>) \<or>
           (key, st) \<in> set (activeStreams sys)"
      by (rule set_update)
    thus "is_uuid (stream_sessionId st) \<and>
          key = stream_sessionId st @ ''-'' @ interpolate (stream_participant st)"
      using uuid assms(2) unfolding wf_streams_iff by auto
  qed
  thus ?thesis
    using k by (simp add: handleMediaStream_def Let_def interpolate_def)
qed

lemma stream_closed_wf:
  assumes "wf_streams (activeStreams sys)"
  shows "activeSessions (stream_closed sid who sys) = activeSessions sys \<and>
         wf_streams (activeStreams (stream_closed sid who sys))"
  using assms unfolding wf_streams_iff
  by (auto simp: stream_closed_def Let_def dest: set_delete)

lemma changes_one_keeps:
  assumes "changes_one sys sys'"
    and "wf_sessions (activeSessions sys) \<and> wf_streams (activeStreams sys)"
  shows "wf_sessions (activeSessions sys') \<and> wf_streams (activeStreams sys')"
proof -
  have "activeStreams sys' = activeStreams sys"
    using assms(1) by (simp add: changes_one_def)
  thus ?thesis using changes_one_wf[OF assms(1)] assms(2) by simp
qed

text \<open>Every reachable system has well-formed registries.\<close>

lemma reachable_wf:
  "reachable sys \<Longrightarrow> wf_sessions (activeSessions sys) \<and> wf_streams (activeStreams sys)"
proof (induction rule: reachable.induct)
  case start
  show ?case by (simp add: wf_sessions_def wf_streams_def)
next
  case (create sys uuid now phoneNumber' phoneLanguage webLanguage call)
  thus ?case using create_session_wf[of sys uuid] by simp
next
  case (incoming sys now req)
  show ?case by (rule changes_one_keeps[OF handleIncomingCall_changes incoming.IH])
next
  case (voice sys now req)
  show ?case by (rule changes_one_keeps[OF handleWebCall_changes voice.IH])
next
  case (call sys now req)
  show ?case by (rule changes_one_keeps[OF call_status_changes call.IH])
next
  case (conference sys now req)
  show ?case by (rule changes_one_keeps[OF conference_status_changes conference.IH])
next
  case (timeout sys now)
  thus ?case using elapse_wf[of sys now] by simp
next
  case (connect sys ws' sessionId' participant)
  thus ?case using handleMediaStream_wf[of sys ws' sessionId' participant] by simp
next
  case (disconnect sys sessionId' participant)
  thus ?case using stream_closed_wf[of sys sessionId' participant] by simp
next
  case (media sys key session env media' participant)
  thus ?case
    using wf_sessions_change_found[of "activeSessions sys" key session]
          processAudioForTranslation_sessionId
    by simp
qed


lemma is_uuid_length: "is_uuid s \<Longrightarrow> length s = 36"
  by (simp add: is_uuid_def)

lemma stream_key_injective:
  "length a = length b \<Longrightarrow> a @ ''-'' @ p = b @ ''-'' @ q \<Longrightarrow> a = b"
  by simp

lemma WsSend_translateAndForwardAudio:
  "WsSend socket message \<in> set (translateAndForwardAudio env streams frame who session) \<Longrightarrow>
   \<exists>audio target. WsSend socket message \<in>
      set (sendAudioToParticipant env streams audio target session)"
  by (auto simp: translateAndForwardAudio_def Let_def
           split: if_splits sum.splits option.splits)

text \<open>
  C9. In a reachable system, where session ids are the values of \<open>uuidv4()\<close>, take a
  session registered under the id \<open>A\<close>. Whatever \<open>sendAudioToParticipant\<close> or the whole
  pipeline sends for that session goes to the socket of a stream that was registered
  under the session id \<open>A\<close>; and the key of a stream registered under any other
  session id differs from every key \<open>A-participant\<close>, whatever the participant strings.
\<close>

theorem routing_isolation:
  assumes "reachable sys" and "(A, sessA) \<in> set (activeSessions sys)"
  shows "(\<forall>socket message.
            WsSend socket message \<in>
              set (sendAudioToParticipant env (activeStreams sys) audio target sessA) \<or>
            WsSend socket message \<in>
              set (translateAndForwardAudio env (activeStreams sys) frame who sessA)
            \<longrightarrow> (\<exists>key st. (key, st) \<in> set (activeStreams sys) \<and> ws st = socket \<and>
                           stream_sessionId st = A)) \<and>
         (\<forall>key st participant.
            (key, st) \<in> set (activeStreams sys) \<and> stream_sessionId st \<noteq> A
            \<longrightarrow> key \<noteq> A @ ''-'' @ participant)"
proof -
  have wf: "wf_sessions (activeSessions sys)" "wf_streams (activeStreams sys)"
    using reachable_wf[OF assms(1)] by simp_all
  have A: "is_uuid A" "sessionId sessA = A"
    using wf_sessions_member[OF wf(1) assms(2)] by simp_all
  have keys: "key \<noteq> A @ ''-'' @ participant"
    if "(key, st) \<in> set (activeStreams sys)" "stream_sessionId st \<noteq> A" for key st participant
  proof
    assume same: "key = A @ ''-'' @ participant"
    have st: "is_uuid (stream_sessionId st)"
      "key = stream_sessionId st @ ''-'' @ interpolate (stream_participant st)"
      using wf(2) that(1) unfolding wf_streams_iff by blast+
    have "length A = length (stream_sessionId st)"
      using A(1) st(1) by (simp add: is_uuid_length)
    hence "A = stream_sessionId st"
      using stream_key_injective[of A "stream_sessionId st" participant] same st(2) by simp
    thus False using that(2) by simp
  qed
  have send: "\<exists>key st. (key, st) \<in> set (activeStreams sys) \<and> ws st = socket \<and>
                stream_sessionId st = A"
    if sent: "WsSend socket message \<in>
          set (sendAudioToParticipant env (activeStreams sys) audio' target' sessA)"
    for socket message audio' target'
  proof -
    have "\<exists>st. map_of (activeStreams sys) (A @ ''-'' @ target') = Some st \<and> ws st = socket"
    proof (cases "map_of (activeStreams sys) (A @ ''-'' @ target')")
      case None
      thus ?thesis using sent A(2) by (simp add: sendAudioToParticipant_def)
    next
      case (Some st)
      thus ?thesis
        using sent A(2) by (simp add: sendAudioToParticipant_def Let_def split: if_splits)
    qed
    then obtain st where st: "map_of (activeStreams sys) (A @ ''-'' @ target') = Some st"
        "ws st = socket"
      by blast
    have member: "(A @ ''-'' @ target', st) \<in> set (activeStreams sys)"
      using st(1) by (rule map_of_SomeD)
    have "stream_sessionId st = A"
      using keys[OF member, of target'] by blast
    thus ?thesis using member st(2) by blast
  qed
  have piped: "\<exists>key st. (key, st) \<in> set (activeStreams sys) \<and> ws st = socket \<and>
                stream_sessionId st = A"
    if "WsSend socket message \<in>
          set (translateAndForwardAudio env (activeStreams sys) frame who sessA)"
    for socket message
    using WsSend_translateAndForwardAudio[OF that] send by blast
  have first: "\<forall>socket message.
            WsSend socket message \<in>
              set (sendAudioToParticipant env (activeStreams sys) audio target sessA) \<or>
            WsSend socket message \<in>
              set (translateAndForwardAudio env (activeStreams sys) frame who sessA)
            \<longrightarrow> (\<exists>key st. (key, st) \<in> set (activeStreams sys) \<and> ws st = socket \<and>
                           stream_sessionId st = A)"
    using send[of _ _ audio target] piped by blast
  have second: "\<forall>key st participant.
            (key, st) \<in> set (activeStreams sys) \<and> stream_sessionId st \<noteq> A
            \<longrightarrow> key \<noteq> A @ ''-'' @ participant"
    using keys by blast
  show ?thesis using first second by (rule conjI)
qed

lemma example_uuid: "is_uuid ''123e4567-e89b-42d3-a456-426614174000''"
  by (simp add: is_uuid_def is_hex_def upt_rec)

lemma second_uuid: "is_uuid ''9b2c1d3e-4f5a-4b6c-8d7e-0f1a2b3c4d5e''"
  by (simp add: is_uuid_def is_hex_def upt_rec)

lemma two_session_system_reachable: "reachable two_session_system"
proof -
  let ?a = "''123e4567-e89b-42d3-a456-426614174000''"
  let ?b = "''9b2c1d3e-4f5a-4b6c-8d7e-0f1a2b3c4d5e''"
  let ?one = "snd (create_session 1000 ?a (Str ''+15550100'') (Str ''es'') (Str ''en'') None
                     \<lparr>activeSessions = [], activeStreams = [], timers = []\<rparr>)"
  let ?two = "snd (create_session 2000 ?b (Str ''+15550101'') (Str ''fr'') (Str ''en'') None ?one)"
  let ?three = "snd (handleMediaStream 3 (Some ?a) (Some ''web'') ?two)"
  let ?four = "snd (handleMediaStream 4 (Some ?b) (Some ''web'') ?three)"
  let ?five = "snd (handleMediaStream 5 (Some ?b) (Some ''phone'') ?four)"
  have "reachable ?five"
    by (intro reachable.connect reachable.create reachable.start example_uuid second_uuid)
  moreover have "?five = two_session_system"
    by (simp add: handleMediaStream_def create_session_def Let_def truthy_def property_key_def
                  interpolate_def supported_def SUPPORTED_LANGUAGES_def two_session_system_def
                  example_session_def second_session_def)
  ultimately show ?thesis by simp
qed

theorem routing_isolation_witness:
  "reachable two_session_system \<and>
   (''123e4567-e89b-42d3-a456-426614174000'', example_session)
     \<in> set (activeSessions two_session_system) \<and>
   (''9b2c1d3e-4f5a-4b6c-8d7e-0f1a2b3c4d5e'', second_session)
     \<in> set (activeSessions two_session_system) \<and>
   sendAudioToParticipant example_environment (activeStreams two_session_system) [255, 254]
     ''web'' example_session =
     [WsSend 3 \<lparr>event = ''media'',
                streamSid = ''stream-123e4567-e89b-42d3-a456-426614174000-web'',
                payload = [255, 254]\<rparr>] \<and>
   sendAudioToParticipant example_environment (activeStreams two_session_system) [255, 254]
     ''web'' second_session =
     [WsSend 4 \<lparr>event = ''media'',
                streamSid = ''stream-9b2c1d3e-4f5a-4b6c-8d7e-0f1a2b3c4d5e-web'',
                payload = [255, 254]\<rparr>] \<and>
   (\<exists>key st. (key, st) \<in> set (activeStreams two_session_system) \<and> ws st = 3 \<and>
      stream_sessionId st = ''123e4567-e89b-42d3-a456-426614174000'') \<and>
   (\<exists>key st. (key, st) \<in> set (activeStreams two_session_system) \<and> ws st = 4 \<and>
      stream_sessionId st = ''9b2c1d3e-4f5a-4b6c-8d7e-0f1a2b3c4d5e'') \<and>
   (\<forall>participant.
      ''9b2c1d3e-4f5a-4b6c-8d7e-0f1a2b3c4d5e-web''
        \<noteq> ''123e4567-e89b-42d3-a456-426614174000'' @ ''-'' @ participant \<and>
      ''9b2c1d3e-4f5a-4b6c-8d7e-0f1a2b3c4d5e-phone''
        \<noteq> ''123e4567-e89b-42d3-a456-426614174000'' @ ''-'' @ participant \<and>
      ''123e4567-e89b-42d3-a456-426614174000-web''
        \<noteq> ''9b2c1d3e-4f5a-4b6c-8d7e-0f1a2b3c4d5e'' @ ''-'' @ participant)"
proof -
  let ?a = "''123e4567-e89b-42d3-a456-426614174000''"
  let ?b = "''9b2c1d3e-4f5a-4b6c-8d7e-0f1a2b3c4d5e''"
  let ?ma = "\<lparr>event = ''media'', streamSid = ''stream-123e4567-e89b-42d3-a456-426614174000-web'',
             payload = [255, 254]\<rparr>"
  let ?mb = "\<lparr>event = ''media'', streamSid = ''stream-9b2c1d3e-4f5a-4b6c-8d7e-0f1a2b3c4d5e-web'',
             payload = [255, 254]\<rparr>"
  let ?streams = "activeStreams two_session_system"
  have member_a: "(?a, example_session) \<in> set (activeSessions two_session_system)"
    by (simp add: two_session_system_def)
  have member_b: "(?b, second_session) \<in> set (activeSessions two_session_system)"
    by (simp add: two_session_system_def)
  note at_a = routing_isolation[OF two_session_system_reachable member_a,
                of example_environment "[255, 254]" "''web''" "[]" None]
  note at_b = routing_isolation[OF two_session_system_reachable member_b,
                of example_environment "[255, 254]" "''web''" "[]" None]
  have sent_a: "sendAudioToParticipant example_environment ?streams [255, 254] ''web''
                  example_session = [WsSend 3 ?ma]"
    by (simp add: sendAudioToParticipant_def example_environment_def two_session_system_def
                  example_session_def)
  have sent_b: "sendAudioToParticipant example_environment ?streams [255, 254] ''web''
                  second_session = [WsSend 4 ?mb]"
    by (simp add: sendAudioToParticipant_def example_environment_def two_session_system_def
                  second_session_def)
  have "WsSend 3 ?ma \<in> set (sendAudioToParticipant example_environment ?streams [255, 254]
          ''web'' example_session)"
    unfolding sent_a by simp
  hence socket_a: "\<exists>key st. (key, st) \<in> set ?streams \<and> ws st = 3 \<and> stream_sessionId st = ?a"
    using at_a by blast
  have "WsSend 4 ?mb \<in> set (sendAudioToParticipant example_environment ?streams [255, 254]
          ''web'' second_session)"
    unfolding sent_b by simp
  hence socket_b: "\<exists>key st. (key, st) \<in> set ?streams \<and> ws st = 4 \<and> stream_sessionId st = ?b"
    using at_b by blast
  have web_b: "(''9b2c1d3e-4f5a-4b6c-8d7e-0f1a2b3c4d5e-web'',
                \<lparr>ws = 4, stream_participant = Some ''web'', stream_sessionId = ?b\<rparr>)
               \<in> set ?streams"
    by (simp add: two_session_system_def)
  have phone_b: "(''9b2c1d3e-4f5a-4b6c-8d7e-0f1a2b3c4d5e-phone'',
                  \<lparr>ws = 5, stream_participant = Some ''phone'', stream_sessionId = ?b\<rparr>)
                 \<in> set ?streams"
    by (simp add: two_session_system_def)
  have web_a: "(''123e4567-e89b-42d3-a456-426614174000-web'',
                \<lparr>ws = 3, stream_participant = Some ''web'', stream_sessionId = ?a\<rparr>)
               \<in> set ?streams"
    by (simp add: two_session_system_def)
  have other: "stream_sessionId \<lparr>ws = 4, stream_participant = Some ''web'', stream_sessionId = ?b\<rparr> \<noteq> ?a"
    "stream_sessionId \<lparr>ws = 5, stream_participant = Some ''phone'', stream_sessionId = ?b\<rparr> \<noteq> ?a"
    "stream_sessionId \<lparr>ws = 3, stream_participant = Some ''web'', stream_sessionId = ?a\<rparr> \<noteq> ?b"
    by simp_all
  have keys: "\<forall>participant.
      ''9b2c1d3e-4f5a-4b6c-8d7e-0f1a2b3c4d5e-web'' \<noteq> ?a @ ''-'' @ participant \<and>
      ''9b2c1d3e-4f5a-4b6c-8d7e-0f1a2b3c4d5e-phone'' \<noteq> ?a @ ''-'' @ participant \<and>
      ''123e4567-e89b-42d3-a456-426614174000-web'' \<noteq> ?b @ ''-'' @ participant"
    using at_a at_b web_b phone_b web_a other by blast
  show ?thesis
    using two_session_system_reachable member_a member_b sent_a sent_b socket_a socket_b keys
    by (intro conjI)
qed

end
